theory Spec2Isabelle
  imports Complex_Main "HOL-Library.FSet" "HOL-Library.Extended_Nat"
begin

section \<open>Subscription channel session: \<^verbatim>\<open>WebSocketManager\<close> (websocketManager.ts)\<close>

text \<open>
  The class is modelled by explicit state passing. A JavaScript \<^verbatim>\<open>number\<close> holding a
  duration is a \<open>real\<close>, a counter is a \<open>nat\<close>, and \<^verbatim>\<open>maxRetries\<close> (which the
  application sets to \<^verbatim>\<open>Infinity\<close>) is an \<open>enat\<close>. The calls to \<^verbatim>\<open>emit\<close> are
  recorded, in order, in the field \<open>emitted\<close>; \<^verbatim>\<open>log\<close> only prints and is left out.
  What the transport does (whether \<^verbatim>\<open>new WebSocket(url)\<close> or \<^verbatim>\<open>ws.send\<close> throws, the value
  of \<^verbatim>\<open>Math.random()\<close>) is passed to the operations as an argument, and so is what the
  listeners of the session do.
\<close>

datatype ConnectionState = DISCONNECTED | CONNECTING | CONNECTED | RECONNECTING | ERROR

type_synonym Error = string

datatype WebSocket = WebSocket string

datatype Timeout = Timeout real bool
  \<comment> \<open>the delay given to \<^verbatim>\<open>setTimeout\<close>, and whether the timer is still pending\<close>

datatype SessionEvent =
    Open
  | Message string
  | ErrorEvent Error
  | StateChange ConnectionState
  | MaxRetriesReached

record WebSocketManagerOptions =
  opt_url :: string
  opt_initialBackoff :: "real option"
  opt_maxBackoff :: "real option"
  opt_maxRetries :: "enat option"

record WebSocketManager =
  ws :: "WebSocket option"
  state :: ConnectionState
  retryCount :: nat
  backoffTime :: real
  maxBackoff :: real
  maxRetries :: enat
  reconnectTimer :: "Timeout option"
  url :: string
  emitted :: "SessionEvent list"

text \<open>
  \<^verbatim>\<open>emit\<close> calls the listeners before it returns, and a listener may call the methods of the
  session: the operation that emits goes on with the session as the listeners leave it.
  \<open>L ev s\<close> is the session \<open>s\<close> after the listeners attached to it have run for the event
  \<open>ev\<close>. Listeners that only observe leave the session as it is.
\<close>

type_synonym Listeners = "SessionEvent \<Rightarrow> WebSocketManager \<Rightarrow> WebSocketManager"

definition observers :: Listeners where
  "observers ev s = s"

text \<open>\<^verbatim>\<open>v || d\<close> on an optional number: \<^verbatim>\<open>undefined\<close> and \<^verbatim>\<open>0\<close> are falsy.\<close>

definition orDefault :: "'a::zero option \<Rightarrow> 'a \<Rightarrow> 'a" where
  "orDefault v d = (case v of None \<Rightarrow> d | Some x \<Rightarrow> if x = 0 then d else x)"

definition newWebSocketManager :: "WebSocketManagerOptions \<Rightarrow> WebSocketManager" where
  "newWebSocketManager options =
     \<lparr> ws = None,
       state = DISCONNECTED,
       retryCount = 0,
       backoffTime = orDefault (opt_initialBackoff options) 1000,
       maxBackoff = orDefault (opt_maxBackoff options) 30000,
       maxRetries = orDefault (opt_maxRetries options) \<infinity>,
       reconnectTimer = None,
       url = opt_url options,
       emitted = [] \<rparr>"

definition getState :: "WebSocketManager \<Rightarrow> ConnectionState" where
  "getState s = state s"

definition emit :: "Listeners \<Rightarrow> SessionEvent \<Rightarrow> WebSocketManager \<Rightarrow> WebSocketManager" where
  "emit L ev s = L ev (s\<lparr>emitted := emitted s @ [ev]\<rparr>)"

definition setState :: "Listeners \<Rightarrow> ConnectionState \<Rightarrow> WebSocketManager \<Rightarrow> WebSocketManager" where
  "setState L st s =
     (if state s \<noteq> st then emit L (StateChange st) (s\<lparr>state := st\<rparr>) else s)"

definition handleError :: "Listeners \<Rightarrow> Error \<Rightarrow> WebSocketManager \<Rightarrow> WebSocketManager" where
  "handleError L err s = emit L (ErrorEvent err) (setState L ERROR s)"

definition cleanUp :: "WebSocketManager \<Rightarrow> WebSocketManager" where
  "cleanUp s =
     (let s1 = (if reconnectTimer s \<noteq> None then s\<lparr>reconnectTimer := None\<rparr> else s)
      in if ws s1 \<noteq> None then s1\<lparr>ws := None\<rparr> else s1)"

text \<open>
  \<open>newWebSocket\<close> is the outcome of \<^verbatim>\<open>new WebSocket(this.url)\<close>: the handle, or the error it
  throws. \<^verbatim>\<open>setupEventListeners\<close> attaches the four listeners below to the new handle.
\<close>

definition connect :: "Listeners \<Rightarrow> (string \<Rightarrow> Error + WebSocket) \<Rightarrow> WebSocketManager
    \<Rightarrow> WebSocketManager" where
  "connect L newWebSocket s =
     (if state s = CONNECTING \<or> state s = CONNECTED then s
      else let s1 = setState L CONNECTING s
           in case newWebSocket (url s1) of
                Inr sock \<Rightarrow> s1\<lparr>ws := Some sock\<rparr>
              | Inl err \<Rightarrow> handleError L err s1)"

text \<open>
  \<open>wsSend\<close> is the outcome of the body of the \<^verbatim>\<open>try\<close> block (\<^verbatim>\<open>JSON.stringify\<close> and
  \<^verbatim>\<open>ws.send\<close>) on the handle and the payload.
\<close>

definition send :: "Listeners \<Rightarrow> (WebSocket \<Rightarrow> string \<Rightarrow> Error + unit) \<Rightarrow> string \<Rightarrow> WebSocketManager
    \<Rightarrow> bool \<times> WebSocketManager" where
  "send L wsSend data s =
     (if state s \<noteq> CONNECTED \<or> ws s = None then (False, s)
      else case wsSend (the (ws s)) data of
             Inr _ \<Rightarrow> (True, s)
           | Inl err \<Rightarrow> (False, handleError L err s))"

definition disconnect :: "Listeners \<Rightarrow> WebSocketManager \<Rightarrow> WebSocketManager" where
  "disconnect L s = setState L DISCONNECTED (cleanUp s)"

text \<open>
  \<open>r\<close> is the value of \<^verbatim>\<open>Math.random()\<close>, in \<open>[0, 1)\<close>. The counter is incremented and the
  timer is set after \<^verbatim>\<open>setState\<close> has returned, that is after the listeners of the
  \<^verbatim>\<open>state_change\<close> event have run, on the session as they leave it.
\<close>

definition attemptReconnect :: "Listeners \<Rightarrow> real \<Rightarrow> WebSocketManager \<Rightarrow> WebSocketManager" where
  "attemptReconnect L r s =
     (if enat (retryCount s) \<ge> maxRetries s
      then emit L MaxRetriesReached (setState L DISCONNECTED s)
      else let s1 = setState L RECONNECTING s;
               s2 = s1\<lparr>retryCount := retryCount s1 + 1\<rparr>;
               jitter = r * 0.3 + 0.85;
               delay = min (backoffTime s2 * jitter) (maxBackoff s2)
           in s2\<lparr>reconnectTimer := Some (Timeout delay True)\<rparr>)"

text \<open>The listeners that \<^verbatim>\<open>setupEventListeners\<close> attaches to the socket.\<close>

definition onOpen :: "Listeners \<Rightarrow> WebSocketManager \<Rightarrow> WebSocketManager" where
  "onOpen L s =
     (let s1 = setState L CONNECTED s;
          s2 = s1\<lparr>retryCount := 0\<rparr>;
          s3 = s2\<lparr>backoffTime := 1000\<rparr>
      in emit L Open s3)"

definition onMessage :: "Listeners \<Rightarrow> string \<Rightarrow> WebSocketManager \<Rightarrow> WebSocketManager" where
  "onMessage L data s = emit L (Message data) s"

definition onError :: "Listeners \<Rightarrow> Error \<Rightarrow> WebSocketManager \<Rightarrow> WebSocketManager" where
  "onError L err s = handleError L err s"

definition onClose :: "Listeners \<Rightarrow> real \<Rightarrow> WebSocketManager \<Rightarrow> WebSocketManager" where
  "onClose L r s =
     (let s1 = cleanUp s
      in if state s1 \<noteq> DISCONNECTED then attemptReconnect L r s1 else s1)"

text \<open>The callback that \<^verbatim>\<open>attemptReconnect\<close> hands to \<^verbatim>\<open>setTimeout\<close>.\<close>

definition onReconnectTimer :: "Listeners \<Rightarrow> (string \<Rightarrow> Error + WebSocket) \<Rightarrow> WebSocketManager
    \<Rightarrow> WebSocketManager" where
  "onReconnectTimer L newWebSocket s =
     (let s1 = connect L newWebSocket s
      in s1\<lparr>backoffTime := min (backoffTime s1 * 1.5) (maxBackoff s1)\<rparr>)"

text \<open>
  What reaches the session from outside: calls of its public methods, socket events and the
  expiry of the timer. A socket event runs a listener only while a handle with listeners
  is held (\<^verbatim>\<open>cleanUp\<close> removes the listeners before it drops the handle); the timer callback runs
  only while the timer is pending, and the field keeps the expired handle afterwards.
  \<open>listeners\<close> are the listeners attached to the session while the input is handled.
\<close>

datatype SessionInput =
    CallConnect
  | CallSend string
  | CallDisconnect
  | WsOpen
  | WsMessage string
  | WsError Error
  | WsClose real
  | TimerExpires

record Transport =
  newWebSocket :: "string \<Rightarrow> Error + WebSocket"
  wsSend :: "WebSocket \<Rightarrow> string \<Rightarrow> Error + unit"
  listeners :: Listeners

fun timerPending :: "Timeout option \<Rightarrow> bool" where
  "timerPending (Some (Timeout d p)) = p"
| "timerPending None = False"

fun expire :: "Timeout option \<Rightarrow> Timeout option" where
  "expire (Some (Timeout d p)) = Some (Timeout d False)"
| "expire None = None"

fun sessionStep :: "Transport \<Rightarrow> WebSocketManager \<Rightarrow> SessionInput \<Rightarrow> WebSocketManager" where
  "sessionStep env s CallConnect = connect (listeners env) (newWebSocket env) s"
| "sessionStep env s (CallSend data) = snd (send (listeners env) (wsSend env) data s)"
| "sessionStep env s CallDisconnect = disconnect (listeners env) s"
| "sessionStep env s WsOpen = (if ws s = None then s else onOpen (listeners env) s)"
| "sessionStep env s (WsMessage data) = (if ws s = None then s else onMessage (listeners env) data s)"
| "sessionStep env s (WsError err) = (if ws s = None then s else onError (listeners env) err s)"
| "sessionStep env s (WsClose r) = (if ws s = None then s else onClose (listeners env) r s)"
| "sessionStep env s TimerExpires =
     (if timerPending (reconnectTimer s)
      then onReconnectTimer (listeners env) (newWebSocket env)
             (s\<lparr>reconnectTimer := expire (reconnectTimer s)\<rparr>)
      else s)"

definition sessionRun :: "Transport \<Rightarrow> WebSocketManager \<Rightarrow> SessionInput list \<Rightarrow> WebSocketManager" where
  "sessionRun env s ins = foldl (sessionStep env) s ins"

subsection \<open>Example configuration\<close>

definition reachable :: "string \<Rightarrow> Error + WebSocket" where
  "reachable u = Inr (WebSocket u)"

definition delivers :: "WebSocket \<Rightarrow> string \<Rightarrow> Error + unit" where
  "delivers sock data = Inr ()"

definition goodTransport :: Transport where
  "goodTransport = \<lparr> newWebSocket = reachable, wsSend = delivers, listeners = observers \<rparr>"

definition defaultOptions :: WebSocketManagerOptions where
  "defaultOptions =
     \<lparr> opt_url = ''wss://p1'', opt_initialBackoff = None, opt_maxBackoff = None,
       opt_maxRetries = None \<rparr>"

definition connectedSession :: WebSocketManager where
  "connectedSession = sessionRun goodTransport (newWebSocketManager defaultOptions) [CallConnect, WsOpen]"

definition reconnectingSession :: WebSocketManager where
  "reconnectingSession = sessionRun goodTransport connectedSession [WsClose (1/2)]"

definition tightCeilingOptions :: WebSocketManagerOptions where
  "tightCeilingOptions =
     \<lparr> opt_url = ''wss://p1'', opt_initialBackoff = Some 1000, opt_maxBackoff = Some 500,
       opt_maxRetries = None \<rparr>"

definition halfSecondOptions :: WebSocketManagerOptions where
  "halfSecondOptions =
     \<lparr> opt_url = ''wss://p1'', opt_initialBackoff = Some 500, opt_maxBackoff = Some 30000,
       opt_maxRetries = None \<rparr>"

text \<open>A session configured with an initial backoff of 500 ms fails once, reconnects and opens.\<close>

definition failThenSucceed :: WebSocketManager where
  "failThenSucceed =
     sessionRun goodTransport (newWebSocketManager halfSecondOptions)
       [CallConnect, WsClose (1/2), TimerExpires, WsOpen]"

text \<open>The delay of the reconnect that the session has scheduled, if it has scheduled one.\<close>

fun scheduledDelay :: "WebSocketManager \<Rightarrow> real option" where
  "scheduledDelay s =
     (case reconnectTimer s of
        None \<Rightarrow> None
      | Some (Timeout d p) \<Rightarrow> if p then Some d else None)"

section \<open>Endpoint rotation\<close>

text \<open>
  Both managers keep an index into their endpoint list and a \<^verbatim>\<open>Set<number>\<close> of failed
  indices, and both \<^verbatim>\<open>switchEndpoint\<close> methods end with the same loop:
  \<^verbatim>\<open>while (failed.has(nextIndex) && attemptCount < n) { nextIndex = (nextIndex + 1) % n; attemptCount++; }\<close>
\<close>

function findNotFailed :: "nat fset \<Rightarrow> nat \<Rightarrow> nat \<Rightarrow> nat \<Rightarrow> nat" where
  "findNotFailed failed n nextIndex attemptCount =
     (if nextIndex |\<in>| failed \<and> attemptCount < n
      then findNotFailed failed n ((nextIndex + 1) mod n) (attemptCount + 1)
      else nextIndex)"
  by pat_completeness auto
termination
  by (relation "measure (\<lambda>(failed, n, nextIndex, attemptCount). n - attemptCount)") auto

declare findNotFailed.simps [simp del]

text \<open>
  The rotation table as the design describes it, for comparison with the two methods: when
  the failed set covers every index it is cleared before the selection, and the selection
  walks forward circularly from the current index, skipping the failed indices.
\<close>

definition advance :: "nat \<Rightarrow> nat \<Rightarrow> nat fset \<Rightarrow> (nat fset \<times> nat) option" where
  "advance n cur failed =
     (let failed' = (if \<forall>i\<in>{0..<n}. i |\<in>| failed then {||} else failed)
      in map_option (Pair failed')
           (find (\<lambda>i. i |\<notin>| failed') (map (\<lambda>k. (cur + 1 + k) mod n) [0..<n])))"

text \<open>
  Reading a JavaScript array: \<^verbatim>\<open>undefined\<close> (here \<open>None\<close>) outside the range. Where the
  source makes a URL of the value read, \<^verbatim>\<open>undefined\<close> becomes the text \<^verbatim>\<open>undefined\<close>.
\<close>

definition lookup :: "'a list \<Rightarrow> nat \<Rightarrow> 'a option" where
  "lookup xs i = (if i < length xs then Some (xs ! i) else None)"

definition urlOf :: "string option \<Rightarrow> string" where
  "urlOf v = (case v of None \<Rightarrow> ''undefined'' | Some u \<Rightarrow> u)"

section \<open>Subscription channel manager: \<^verbatim>\<open>WebSocketManagerFactory\<close> (websocketManagerFactory.ts)\<close>

text \<open>
  The factory owns one session. \<open>emitted_f\<close> records the factory's own calls of \<^verbatim>\<open>emit\<close>,
  \<open>switchCount\<close> counts the calls of \<^verbatim>\<open>switchEndpoint\<close>, and \<open>replaced\<close> keeps the sessions that
  the factory has replaced: it no longer references them, but they still exist and hold
  their timers. None of the three is a field of the class.
  The session calls the factory's listeners whenever it emits an event. An input
  \<open>SessionEmits\<close> of \<open>factoryStep\<close> runs the listeners for one event, so that they are specified
  for every sequence of events that a session can emit (also for the events that a new
  session emits while \<^verbatim>\<open>createWebSocketManager\<close> connects it, which is the last thing that
  method and its callers do). An input \<open>Socket\<close> is a socket event or timer expiry of the
  owned session, which handles it with the factory's listeners attached (\<open>ownedStep\<close>); an
  input \<open>ReplacedSocket\<close> is one of a replaced session, which has no listeners. The endpoint
  list of a factory is never empty (the constructor refuses an empty one), so \<^verbatim>\<open>%\<close> never
  divides by zero.
\<close>

record WebSocketManagerFactory =
  wssEndpoints :: "string list"
  currentEndpointIndex :: nat
  wsManager :: "WebSocketManager option"
  options :: WebSocketManagerOptions
  failedEndpoints :: "nat fset"
  isReconnecting :: bool
  primaryFailCount :: nat
  maxPrimaryFailCount :: nat
  emitted_f :: "SessionEvent list"
  switchCount :: nat
  replaced :: "WebSocketManager list"

definition emit_f :: "SessionEvent \<Rightarrow> WebSocketManagerFactory \<Rightarrow> WebSocketManagerFactory" where
  "emit_f ev f = f\<lparr>emitted_f := emitted_f f @ [ev]\<rparr>"

definition getCurrentEndpoint :: "WebSocketManagerFactory \<Rightarrow> string option" where
  "getCurrentEndpoint f = lookup (wssEndpoints f) (currentEndpointIndex f)"

text \<open>
  The session that is replaced is disconnected after its listeners are removed
  (\<^verbatim>\<open>removeAllListeners(); disconnect()\<close>, so that nothing observes this \<^verbatim>\<open>disconnect\<close>), and is no
  longer referenced: it joins \<open>replaced\<close>. The new session is built for the current endpoint
  and connected. When the method is reached from a listener of the session that it replaces,
  that session is still inside the operation that emitted the event and goes on with it
  afterwards (\<open>ownedStep\<close> below).
\<close>

definition createWebSocketManager :: "Transport \<Rightarrow> WebSocketManagerFactory \<Rightarrow> WebSocketManagerFactory" where
  "createWebSocketManager env f =
     (let old = (case wsManager f of None \<Rightarrow> [] | Some s \<Rightarrow> [disconnect observers s]);
          endpoint = lookup (wssEndpoints f) (currentEndpointIndex f);
          fresh = newWebSocketManager ((options f)\<lparr>opt_url := urlOf endpoint\<rparr>)
      in f\<lparr>replaced := replaced f @ old,
           wsManager := Some (connect observers (newWebSocket env) fresh)\<rparr>)"

definition switchEndpoint :: "Transport \<Rightarrow> WebSocketManagerFactory \<Rightarrow> WebSocketManagerFactory" where
  "switchEndpoint env f =
     (let f1 = f\<lparr>failedEndpoints := finsert (currentEndpointIndex f) (failedEndpoints f),
                 switchCount := switchCount f + 1\<rparr>;
          f2 = f1\<lparr>isReconnecting := False\<rparr>;
          n = length (wssEndpoints f2);
          nextIndex = (currentEndpointIndex f2 + 1) mod n;
          f3 = (if fcard (failedEndpoints f2) \<ge> n
                then f2\<lparr>failedEndpoints := {||}, primaryFailCount := 0\<rparr>
                else f2);
          f4 = f3\<lparr>currentEndpointIndex := findNotFailed (failedEndpoints f3) n nextIndex 0\<rparr>
      in createWebSocketManager env f4)"

definition handleConnectionError :: "Transport \<Rightarrow> Error \<Rightarrow> WebSocketManagerFactory \<Rightarrow> WebSocketManagerFactory" where
  "handleConnectionError env err f =
     (let f1 = emit_f (ErrorEvent err) f
      in if currentEndpointIndex f1 = 0
         then let f2 = f1\<lparr>primaryFailCount := primaryFailCount f1 + 1\<rparr>
              in if primaryFailCount f2 \<ge> maxPrimaryFailCount f2 \<and> length (wssEndpoints f2) > 1
                 then switchEndpoint env f2
                 else f2
         else f1)"

text \<open>The four listeners that \<^verbatim>\<open>setupEventListeners\<close> attaches to the session.\<close>

definition onSessionOpen :: "WebSocketManagerFactory \<Rightarrow> WebSocketManagerFactory" where
  "onSessionOpen f = (emit_f Open f)\<lparr>primaryFailCount := 0\<rparr>"

definition onSessionMessage :: "string \<Rightarrow> WebSocketManagerFactory \<Rightarrow> WebSocketManagerFactory" where
  "onSessionMessage data f = emit_f (Message data) f"

definition onSessionError :: "Transport \<Rightarrow> Error \<Rightarrow> WebSocketManagerFactory \<Rightarrow> WebSocketManagerFactory" where
  "onSessionError env err f = handleConnectionError env err f"

definition onSessionStateChange :: "Transport \<Rightarrow> ConnectionState \<Rightarrow> WebSocketManagerFactory
    \<Rightarrow> WebSocketManagerFactory" where
  "onSessionStateChange env st f =
     (if st = RECONNECTING \<and> \<not> isReconnecting f
      then let f1 = f\<lparr>isReconnecting := True\<rparr>
           in if currentEndpointIndex f1 = 0
              then let f2 = f1\<lparr>primaryFailCount := primaryFailCount f1 + 1\<rparr>
                   in if primaryFailCount f2 \<ge> maxPrimaryFailCount f2
                      then switchEndpoint env f2
                      else emit_f (StateChange st) f2
              else emit_f (StateChange st) f1
      else if st = CONNECTED
      then emit_f (StateChange st) (f\<lparr>isReconnecting := False\<rparr>)
      else emit_f (StateChange st) f)"

fun sessionListener :: "Transport \<Rightarrow> SessionEvent \<Rightarrow> WebSocketManagerFactory \<Rightarrow> WebSocketManagerFactory" where
  "sessionListener env Open f = onSessionOpen f"
| "sessionListener env (Message data) f = onSessionMessage data f"
| "sessionListener env (ErrorEvent err) f = onSessionError env err f"
| "sessionListener env (StateChange st) f = onSessionStateChange env st f"
| "sessionListener env MaxRetriesReached f = f"

definition newWebSocketManagerFactory :: "Transport \<Rightarrow> string list \<Rightarrow> WebSocketManagerOptions
    \<Rightarrow> Error + WebSocketManagerFactory" where
  "newWebSocketManagerFactory env endpoints opts =
     (if length endpoints = 0 then Inl ''No WebSocket endpoints provided''
      else Inr (createWebSocketManager env
             \<lparr> wssEndpoints = endpoints,
               currentEndpointIndex = 0,
               wsManager = None,
               options = opts,
               failedEndpoints = {||},
               isReconnecting = False,
               primaryFailCount = 0,
               maxPrimaryFailCount = 3,
               emitted_f = [],
               switchCount = 0,
               replaced = [] \<rparr>))"

definition getWebSocketManager :: "Transport \<Rightarrow> WebSocketManagerFactory
    \<Rightarrow> (Error + WebSocketManager) \<times> WebSocketManagerFactory" where
  "getWebSocketManager env f =
     (case wsManager f of
        None \<Rightarrow> (Inl ''WebSocket manager not ready yet'', createWebSocketManager env f)
      | Some s \<Rightarrow> (Inr s, f))"

text \<open>
  What the factory's listeners do to the session that calls them. They call a method of
  the session only through \<^verbatim>\<open>createWebSocketManager\<close>, when they switch endpoints: the
  listeners are removed and the session is disconnected, while it is still inside the
  operation that emitted the event.
\<close>

definition ownerListeners :: "Transport \<Rightarrow> WebSocketManagerFactory \<Rightarrow> Listeners" where
  "ownerListeners env f ev s =
     (if switchCount (sessionListener env ev f) \<noteq> switchCount f then disconnect observers s else s)"

text \<open>
  The events that the session emits during one operation reach the listeners in order,
  up to the event at which the listeners replace the session and are removed from it.
\<close>

fun deliver :: "Transport \<Rightarrow> WebSocketManagerFactory \<Rightarrow> SessionEvent list \<Rightarrow> WebSocketManagerFactory" where
  "deliver env f [] = f"
| "deliver env f (ev # evs) =
     (let f1 = sessionListener env ev f
      in if switchCount f1 \<noteq> switchCount f then f1 else deliver env f1 evs)"

text \<open>
  One operation of the owned session, with the factory's listeners attached. No event that
  precedes a switch within one operation changes the fields that decide on the switch, so
  the listeners act on the session as the factory is when the operation starts. A session
  that is replaced during its own operation completes the operation as a replaced session.
\<close>

definition ownedStep :: "Transport \<Rightarrow> SessionInput \<Rightarrow> WebSocketManagerFactory \<Rightarrow> WebSocketManagerFactory" where
  "ownedStep env x f =
     (case wsManager f of
        None \<Rightarrow> f
      | Some s \<Rightarrow>
          let s1 = sessionStep (env\<lparr>listeners := ownerListeners env f\<rparr>) s x;
              f1 = deliver env f (drop (length (emitted s)) (emitted s1))
          in if switchCount f1 \<noteq> switchCount f
             then f1\<lparr>replaced := butlast (replaced f1) @ [s1]\<rparr>
             else f1\<lparr>wsManager := Some s1\<rparr>)"

definition send_f :: "Transport \<Rightarrow> string \<Rightarrow> WebSocketManagerFactory \<Rightarrow> bool \<times> WebSocketManagerFactory" where
  "send_f env data f =
     (case wsManager f of
        None \<Rightarrow> (False, f)
      | Some s \<Rightarrow> (fst (send (ownerListeners env f) (wsSend env) data s), ownedStep env (CallSend data) f))"

definition connect_f :: "Transport \<Rightarrow> WebSocketManagerFactory \<Rightarrow> WebSocketManagerFactory" where
  "connect_f env f =
     (case wsManager f of
        None \<Rightarrow> createWebSocketManager env f
      | Some s \<Rightarrow> ownedStep env CallConnect f)"

text \<open>
  \<^verbatim>\<open>disconnect\<close> also removes the listeners that the application has attached to the
  factory; \<open>emitted_f\<close> keeps recording the calls of \<^verbatim>\<open>emit\<close>.
\<close>

definition disconnect_f :: "Transport \<Rightarrow> WebSocketManagerFactory \<Rightarrow> WebSocketManagerFactory" where
  "disconnect_f env f =
     (case wsManager f of
        None \<Rightarrow> f
      | Some s \<Rightarrow> ownedStep env CallDisconnect f)"

text \<open>Nobody calls the methods of a replaced session: only its socket and its timer reach it.\<close>

fun isCall :: "SessionInput \<Rightarrow> bool" where
  "isCall CallConnect = True"
| "isCall (CallSend data) = True"
| "isCall CallDisconnect = True"
| "isCall x = False"

definition replacedStep :: "Transport \<Rightarrow> nat \<Rightarrow> SessionInput \<Rightarrow> WebSocketManagerFactory
    \<Rightarrow> WebSocketManagerFactory" where
  "replacedStep env i x f =
     (if i < length (replaced f) \<and> \<not> isCall x
      then f\<lparr>replaced := (replaced f)[i := sessionStep (env\<lparr>listeners := observers\<rparr>) (replaced f ! i) x]\<rparr>
      else f)"

datatype FactoryInput =
    SessionEmits SessionEvent
  | Socket SessionInput
  | ReplacedSocket nat SessionInput
  | GetWebSocketManager
  | Send string
  | Connect
  | Disconnect

fun factoryStep :: "Transport \<Rightarrow> WebSocketManagerFactory \<Rightarrow> FactoryInput \<Rightarrow> WebSocketManagerFactory" where
  "factoryStep env f (SessionEmits ev) = sessionListener env ev f"
| "factoryStep env f (Socket x) = ownedStep env x f"
| "factoryStep env f (ReplacedSocket i x) = replacedStep env i x f"
| "factoryStep env f GetWebSocketManager = snd (getWebSocketManager env f)"
| "factoryStep env f (Send data) = snd (send_f env data f)"
| "factoryStep env f Connect = connect_f env f"
| "factoryStep env f Disconnect = disconnect_f env f"

definition factoryRun :: "Transport \<Rightarrow> WebSocketManagerFactory \<Rightarrow> FactoryInput list \<Rightarrow> WebSocketManagerFactory" where
  "factoryRun env f ins = foldl (factoryStep env) f ins"

text \<open>A factory as the application builds it, with a primary and a backup endpoint.\<close>

definition sessionOptions :: WebSocketManagerOptions where
  "sessionOptions =
     \<lparr> opt_url = [], opt_initialBackoff = Some 1000, opt_maxBackoff = Some 30000,
       opt_maxRetries = Some \<infinity> \<rparr>"

definition factoryOf :: "string list \<Rightarrow> WebSocketManagerFactory" where
  "factoryOf endpoints = projr (newWebSocketManagerFactory goodTransport endpoints sessionOptions)"

definition twoEndpoints :: WebSocketManagerFactory where
  "twoEndpoints = factoryOf [''wss://p1'', ''wss://p2'']"

definition threeEndpoints :: WebSocketManagerFactory where
  "threeEndpoints = factoryOf [''A'', ''B'', ''C'']"

definition afterTwoSwitches :: WebSocketManagerFactory where
  "afterTwoSwitches = switchEndpoint goodTransport (switchEndpoint goodTransport threeEndpoints)"

text \<open>The rotation state of a factory is well formed.\<close>

definition factoryInv :: "WebSocketManagerFactory \<Rightarrow> bool" where
  "factoryInv f \<longleftrightarrow>
     wssEndpoints f \<noteq> [] \<and>
     currentEndpointIndex f < length (wssEndpoints f) \<and>
     (\<forall>i. i |\<in>| failedEndpoints f \<longrightarrow> i < length (wssEndpoints f))"

text \<open>
  The session of the primary endpoint, and what the factory observes of it after the
  constructor: when its socket closes three times before it opens; when it opens and then
  reports two errors; when the connection is refused twice.
\<close>

definition primarySession :: WebSocketManager where
  "primarySession = newWebSocketManager (sessionOptions\<lparr>opt_url := ''wss://p1''\<rparr>)"

definition closedThrice :: "FactoryInput list" where
  "closedThrice =
     [SessionEmits (StateChange RECONNECTING), SessionEmits (StateChange CONNECTING),
      SessionEmits (StateChange RECONNECTING), SessionEmits (StateChange CONNECTING),
      SessionEmits (StateChange RECONNECTING)]"

definition reconnectingThrice :: WebSocketManagerFactory where
  "reconnectingThrice = factoryRun goodTransport twoEndpoints closedThrice"

definition twoErrors :: "FactoryInput list" where
  "twoErrors =
     [SessionEmits (StateChange CONNECTED), SessionEmits Open,
      SessionEmits (StateChange ERROR), SessionEmits (ErrorEvent ''read ECONNRESET''),
      SessionEmits (ErrorEvent ''read ECONNRESET'')]"

definition twoErrorsWhileConnected :: WebSocketManagerFactory where
  "twoErrorsWhileConnected = factoryRun goodTransport twoEndpoints twoErrors"

definition refusedTwice :: "FactoryInput list" where
  "refusedTwice =
     [SessionEmits (StateChange ERROR), SessionEmits (ErrorEvent ''ECONNREFUSED''),
      SessionEmits (StateChange RECONNECTING), SessionEmits (StateChange CONNECTING),
      SessionEmits (StateChange ERROR), SessionEmits (ErrorEvent ''ECONNREFUSED'')]"

definition primaryRefusedTwice :: WebSocketManagerFactory where
  "primaryRefusedTwice = factoryRun goodTransport twoEndpoints refusedTwice"

text \<open>The session of the primary closes and reconnects \<open>n\<close> times without opening.\<close>

definition reconnectRounds :: "nat \<Rightarrow> FactoryInput list" where
  "reconnectRounds n =
     concat (replicate n [SessionEmits (StateChange RECONNECTING), SessionEmits (StateChange CONNECTING)])"

text \<open>
  The same observations as socket events of the owned session: its socket closes three
  times before it opens, the timer expiring in between; it opens, reports two errors and
  is closed.
\<close>

definition closesThrice :: "FactoryInput list" where
  "closesThrice =
     [Socket (WsClose (1/2)), Socket TimerExpires, Socket (WsClose (1/2)), Socket TimerExpires,
      Socket (WsClose (1/2))]"

definition closesAfterTwoErrors :: "FactoryInput list" where
  "closesAfterTwoErrors =
     [Socket WsOpen, Socket (WsError ''read ECONNRESET''), Socket (WsError ''read ECONNRESET''),
      Socket (WsClose (1/2))]"

definition switchedOnClose :: WebSocketManagerFactory where
  "switchedOnClose = factoryRun goodTransport twoEndpoints closesAfterTwoErrors"

text \<open>
  A \<^verbatim>\<open>state_change\<close> listener that disconnects the session when it reports \<^verbatim>\<open>RECONNECTING\<close>,
  after removing the listeners, and a connected session whose socket closes while that
  listener is attached.
\<close>

definition disconnectsWhenReconnecting :: Listeners where
  "disconnectsWhenReconnecting ev s =
     (if ev = StateChange RECONNECTING then disconnect observers s else s)"

definition disconnectedWhileReconnecting :: WebSocketManager where
  "disconnectedWhileReconnecting =
     sessionStep (goodTransport\<lparr>listeners := disconnectsWhenReconnecting\<rparr>) connectedSession (WsClose (1/2))"

section \<open>Request channel pool: \<^verbatim>\<open>ConnectionManager\<close> (connectionManager.ts)\<close>

text \<open>
  The file has its own enumeration \<^verbatim>\<open>ConnectionState\<close>, here \<open>PoolState\<close>. The client of the
  RPC library is the value that a successful \<^verbatim>\<open>new Connection(endpoint, commitment)\<close> returns;
  \<open>newConnection\<close> is the outcome of that call. The field \<^verbatim>\<open>maxRetries\<close> is written once, by
  the constructor, as \<^verbatim>\<open>config.maxRetries || 3\<close>: the record keeps the configured value and
  \<open>maxRetries\<close> reads it with the default. \<open>emitted_cm\<close> records the calls of \<^verbatim>\<open>emit\<close> and
  \<open>retryTimers\<close> counts the retry timers that are set and have not yet expired; neither is a
  field of the class.
\<close>

datatype PoolState = Connecting | Connected | Failed | Switching

datatype Connection = Connection string

datatype PoolEvent =
    StateChange_cm PoolState
  | ConnectedTo string
  | ConnectionFailure Error

record ConnectionManagerConfig =
  cfg_httpsEndpoints :: "string list"
  cfg_retryDelay :: "real option"
  cfg_maxRetries :: "nat option"
  cfg_healthCheckInterval :: "real option"

record ConnectionManager =
  httpsEndpoints :: "string list"
  currentEndpointIndex_cm :: nat
  connection :: "Connection option"
  state_cm :: PoolState
  retryDelay :: real
  maxRetriesConfig :: "nat option"
  currentRetries :: nat
  healthCheckIntervalId :: bool
  healthCheckInterval :: real
  lastTimeUsed :: real
  failedEndpoints_cm :: "nat fset"
  emitted_cm :: "PoolEvent list"
  retryTimers :: nat

definition maxRetries_cm :: "ConnectionManager \<Rightarrow> nat" where
  "maxRetries_cm p = orDefault (maxRetriesConfig p) 3"

definition emit_cm :: "PoolEvent \<Rightarrow> ConnectionManager \<Rightarrow> ConnectionManager" where
  "emit_cm ev p = p\<lparr>emitted_cm := emitted_cm p @ [ev]\<rparr>"

definition setState_cm :: "PoolState \<Rightarrow> ConnectionManager \<Rightarrow> ConnectionManager" where
  "setState_cm st p =
     (if state_cm p \<noteq> st then emit_cm (StateChange_cm st) (p\<lparr>state_cm := st\<rparr>) else p)"

definition getCurrentEndpoint_cm :: "ConnectionManager \<Rightarrow> string option" where
  "getCurrentEndpoint_cm p = lookup (httpsEndpoints p) (currentEndpointIndex_cm p)"

text \<open>
  \<^verbatim>\<open>connect\<close>, \<^verbatim>\<open>handleConnectionFailure\<close> and \<^verbatim>\<open>switchEndpoint\<close> call each other: a constructor
  that throws sends \<^verbatim>\<open>connect\<close> to the failure handler at once. The health test that
  \<^verbatim>\<open>connect\<close> starts answers later (\<open>onTestResult\<close>).
\<close>

function connect_cm :: "(string \<Rightarrow> Error + Connection) \<Rightarrow> ConnectionManager \<Rightarrow> ConnectionManager"
  and handleConnectionFailure :: "(string \<Rightarrow> Error + Connection) \<Rightarrow> Error \<Rightarrow> ConnectionManager
    \<Rightarrow> ConnectionManager"
  and switchEndpoint_cm :: "(string \<Rightarrow> Error + Connection) \<Rightarrow> ConnectionManager \<Rightarrow> ConnectionManager"
where
  "connect_cm newConnection p =
     (let p1 = setState_cm Connecting p;
          endpoint = urlOf (lookup (httpsEndpoints p1) (currentEndpointIndex_cm p1))
      in case newConnection endpoint of
           Inr c \<Rightarrow> p1\<lparr>connection := Some c\<rparr>
         | Inl err \<Rightarrow> handleConnectionFailure newConnection err p1)"
| "handleConnectionFailure newConnection err p =
     (let p1 = setState_cm Failed p;
          p2 = emit_cm (ConnectionFailure err) p1
      in if currentRetries p2 < maxRetries_cm p2
         then p2\<lparr>currentRetries := currentRetries p2 + 1, retryTimers := retryTimers p2 + 1\<rparr>
         else switchEndpoint_cm newConnection (p2\<lparr>currentRetries := 0\<rparr>))"
| "switchEndpoint_cm newConnection p =
     (let p1 = p\<lparr>failedEndpoints_cm := finsert (currentEndpointIndex_cm p) (failedEndpoints_cm p)\<rparr>;
          p2 = setState_cm Switching p1;
          n = length (httpsEndpoints p2);
          nextIndex = (currentEndpointIndex_cm p2 + 1) mod n;
          p3 = (if fcard (failedEndpoints_cm p2) \<ge> n then p2\<lparr>failedEndpoints_cm := {||}\<rparr> else p2);
          p4 = p3\<lparr>currentEndpointIndex_cm := findNotFailed (failedEndpoints_cm p3) n nextIndex 0\<rparr>
      in connect_cm newConnection p4)"
  by pat_completeness auto
termination
proof (relation "measure (\<lambda>call. case call of
          Inl (nc, p) \<Rightarrow> (if currentRetries p < maxRetries_cm p then 1 else 4)
        | Inr (Inl (nc, err, p)) \<Rightarrow> (if currentRetries p < maxRetries_cm p then 0 else 3)
        | Inr (Inr (nc, p)) \<Rightarrow> (if currentRetries p < maxRetries_cm p then 2 else 5))")
  show "wf (measure (\<lambda>call. case call of
          Inl (nc, p) \<Rightarrow> (if currentRetries p < maxRetries_cm p then 1 else 4)
        | Inr (Inl (nc, err, p)) \<Rightarrow> (if currentRetries p < maxRetries_cm p then 0 else 3)
        | Inr (Inr (nc, p)) \<Rightarrow> (if currentRetries p < maxRetries_cm p then 2 else (5::nat))))"
    by simp
qed (auto simp: setState_cm_def emit_cm_def maxRetries_cm_def orDefault_def Let_def
       split: option.splits if_splits)

declare connect_cm.simps [simp del] handleConnectionFailure.simps [simp del]
  switchEndpoint_cm.simps [simp del]

text \<open>
  \<^verbatim>\<open>testConnection\<close> answers \<^verbatim>\<open>false\<close> without a client; otherwise \<open>probe\<close> is whether
  \<^verbatim>\<open>getVersion\<close> answered.
\<close>

definition testConnection :: "bool \<Rightarrow> ConnectionManager \<Rightarrow> bool" where
  "testConnection probe p = (if connection p = None then False else probe)"

text \<open>The continuation of the health test that \<^verbatim>\<open>connect\<close> started for \<open>endpoint\<close>.\<close>

definition onTestResult :: "(string \<Rightarrow> Error + Connection) \<Rightarrow> string \<Rightarrow> bool \<Rightarrow> ConnectionManager
    \<Rightarrow> ConnectionManager" where
  "onTestResult newConnection endpoint isHealthy p =
     (if isHealthy
      then let p1 = setState_cm Connected p;
               p2 = p1\<lparr>currentRetries := 0\<rparr>
           in emit_cm (ConnectedTo endpoint) p2
      else handleConnectionFailure newConnection (''Failed to connect to '' @ endpoint) p)"

text \<open>\<open>now\<close> is the value of \<^verbatim>\<open>Date.now()\<close>.\<close>

definition getConnection :: "(string \<Rightarrow> Error + Connection) \<Rightarrow> real \<Rightarrow> ConnectionManager
    \<Rightarrow> (Error + Connection) \<times> ConnectionManager" where
  "getConnection newConnection now p =
     (let p1 = p\<lparr>lastTimeUsed := now\<rparr>
      in case connection p1 of
           None \<Rightarrow> (Inl ''Connection not ready yet'', connect_cm newConnection p1)
         | Some c \<Rightarrow> (Inr c, p1))"

definition onHealthCheck :: "(string \<Rightarrow> Error + Connection) \<Rightarrow> real \<Rightarrow> bool \<Rightarrow> ConnectionManager
    \<Rightarrow> ConnectionManager" where
  "onHealthCheck newConnection now probe p =
     (if now - lastTimeUsed p > healthCheckInterval p * 2 then p
      else if \<not> testConnection probe p
      then handleConnectionFailure newConnection ''Health check failed'' p
      else p)"

definition stop :: "ConnectionManager \<Rightarrow> ConnectionManager" where
  "stop p = (if healthCheckIntervalId p then p\<lparr>healthCheckIntervalId := False\<rparr> else p)"

definition newConnectionManager :: "(string \<Rightarrow> Error + Connection) \<Rightarrow> real \<Rightarrow> ConnectionManagerConfig
    \<Rightarrow> Error + ConnectionManager" where
  "newConnectionManager newConnection now cfg =
     (let p = \<lparr> httpsEndpoints = cfg_httpsEndpoints cfg,
                currentEndpointIndex_cm = 0,
                connection = None,
                state_cm = Connecting,
                retryDelay = orDefault (cfg_retryDelay cfg) 5000,
                maxRetriesConfig = cfg_maxRetries cfg,
                currentRetries = 0,
                healthCheckIntervalId = False,
                healthCheckInterval = orDefault (cfg_healthCheckInterval cfg) 30000,
                lastTimeUsed = now,
                failedEndpoints_cm = {||},
                emitted_cm = [],
                retryTimers = 0 \<rparr>
      in if length (httpsEndpoints p) = 0 then Inl ''No RPC endpoints provided''
         else Inr ((connect_cm newConnection p)\<lparr>healthCheckIntervalId := True\<rparr>))"

datatype PoolInput =
    GetConnection real
  | TestResult string bool
  | RetryTimerExpires
  | HealthCheckTick real bool
  | Stop

fun poolStep :: "(string \<Rightarrow> Error + Connection) \<Rightarrow> ConnectionManager \<Rightarrow> PoolInput \<Rightarrow> ConnectionManager" where
  "poolStep nc p (GetConnection now) = snd (getConnection nc now p)"
| "poolStep nc p (TestResult endpoint isHealthy) = onTestResult nc endpoint isHealthy p"
| "poolStep nc p RetryTimerExpires =
     (if retryTimers p > 0 then connect_cm nc (p\<lparr>retryTimers := retryTimers p - 1\<rparr>) else p)"
| "poolStep nc p (HealthCheckTick now probe) =
     (if healthCheckIntervalId p then onHealthCheck nc now probe p else p)"
| "poolStep nc p Stop = stop p"

definition poolRun :: "(string \<Rightarrow> Error + Connection) \<Rightarrow> ConnectionManager \<Rightarrow> PoolInput list \<Rightarrow> ConnectionManager" where
  "poolRun nc p ins = foldl (poolStep nc) p ins"

text \<open>The client has been built by the constructor of the library for a configured endpoint.\<close>

definition constructed :: "(string \<Rightarrow> Error + Connection) \<Rightarrow> ConnectionManager \<Rightarrow> Connection \<Rightarrow> bool" where
  "constructed nc p c = list_ex (\<lambda>e. nc e = Inr c) (httpsEndpoints p)"

text \<open>An RPC library that accepts the URLs that start with \<^verbatim>\<open>http\<close>, and two configurations.\<close>

definition httpOnly :: "string \<Rightarrow> Error + Connection" where
  "httpOnly u = (if take 4 u = ''http'' then Inr (Connection u)
                 else Inl ''Endpoint URL must start with `http:` or `https:`.'')"

definition poolConfig :: "string list \<Rightarrow> ConnectionManagerConfig" where
  "poolConfig endpoints =
     \<lparr> cfg_httpsEndpoints = endpoints, cfg_retryDelay = None, cfg_maxRetries = None,
       cfg_healthCheckInterval = None \<rparr>"

definition poolOf :: "string list \<Rightarrow> ConnectionManager" where
  "poolOf endpoints = projr (newConnectionManager httpOnly 0 (poolConfig endpoints))"

definition threeRpcEndpoints :: ConnectionManager where
  "threeRpcEndpoints = poolOf [''https://a'', ''https://b'', ''https://c'']"

text \<open>The index is within the endpoint list, and the client held, if any, has been constructed.\<close>

definition poolInv :: "(string \<Rightarrow> Error + Connection) \<Rightarrow> ConnectionManager \<Rightarrow> bool" where
  "poolInv nc p \<longleftrightarrow>
     httpsEndpoints p \<noteq> [] \<and>
     currentEndpointIndex_cm p < length (httpsEndpoints p) \<and>
     (case connection p of None \<Rightarrow> True | Some c \<Rightarrow> constructed nc p c)"

definition brokenPrimary :: ConnectionManager where
  "brokenPrimary = poolOf [''ftp://a'', ''https://b'']"

text \<open>
  A pool whose backup the library refuses. The health test of the primary fails four times,
  the retry timer expiring in between: the fourth failure exhausts the retries and the pool
  switches to the backup.
\<close>

definition brokenBackup :: ConnectionManager where
  "brokenBackup = poolOf [''https://a'', ''ftp://b'']"

definition fourFailedProbes :: "PoolInput list" where
  "fourFailedProbes =
     [TestResult ''https://a'' False, RetryTimerExpires, TestResult ''https://a'' False, RetryTimerExpires,
      TestResult ''https://a'' False, RetryTimerExpires, TestResult ''https://a'' False]"

definition afterFailedProbes :: ConnectionManager where
  "afterFailedProbes = poolRun httpOnly brokenBackup fourFailedProbes"

section \<open>Facts about the session\<close>

lemma emit_observers [simp]: "emit observers ev s = s\<lparr>emitted := emitted s @ [ev]\<rparr>"
  by (simp add: emit_def observers_def)

lemma setState_fields [simp]:
  "state (setState observers st s) = st"
  "ws (setState observers st s) = ws s"
  "retryCount (setState observers st s) = retryCount s"
  "backoffTime (setState observers st s) = backoffTime s"
  "maxBackoff (setState observers st s) = maxBackoff s"
  "maxRetries (setState observers st s) = maxRetries s"
  "reconnectTimer (setState observers st s) = reconnectTimer s"
  "url (setState observers st s) = url s"
  by (simp_all add: setState_def)

lemma setState_emitted:
  "emitted (setState observers st s) = emitted s @ (if state s = st then [] else [StateChange st])"
  by (simp add: setState_def)

lemma setState_same [simp]: "state s = st \<Longrightarrow> setState L st s = s"
  by (simp add: setState_def)

lemma handleError_fields [simp]:
  "state (handleError observers err s) = ERROR"
  "ws (handleError observers err s) = ws s"
  "retryCount (handleError observers err s) = retryCount s"
  "backoffTime (handleError observers err s) = backoffTime s"
  "maxBackoff (handleError observers err s) = maxBackoff s"
  "maxRetries (handleError observers err s) = maxRetries s"
  "reconnectTimer (handleError observers err s) = reconnectTimer s"
  "url (handleError observers err s) = url s"
  by (simp_all add: handleError_def)

lemma cleanUp_fields [simp]:
  "state (cleanUp s) = state s"
  "ws (cleanUp s) = None"
  "reconnectTimer (cleanUp s) = None"
  "retryCount (cleanUp s) = retryCount s"
  "backoffTime (cleanUp s) = backoffTime s"
  "maxBackoff (cleanUp s) = maxBackoff s"
  "maxRetries (cleanUp s) = maxRetries s"
  "emitted (cleanUp s) = emitted s"
  by (simp_all add: cleanUp_def Let_def)

lemma cleanUp_idle: "ws s = None \<Longrightarrow> reconnectTimer s = None \<Longrightarrow> cleanUp s = s"
  by (simp add: cleanUp_def)

lemma connect_backoff [simp]:
  "backoffTime (connect observers mk s) = backoffTime s"
  "maxBackoff (connect observers mk s) = maxBackoff s"
  by (simp_all add: connect_def Let_def split: sum.splits)

lemma send_backoff [simp]:
  "backoffTime (snd (send observers tx data s)) = backoffTime s"
  "maxBackoff (snd (send observers tx data s)) = maxBackoff s"
  by (simp_all add: send_def split: sum.splits)

lemma attemptReconnect_backoff [simp]:
  "backoffTime (attemptReconnect observers r s) = backoffTime s"
  "maxBackoff (attemptReconnect observers r s) = maxBackoff s"
  by (simp_all add: attemptReconnect_def Let_def)

lemma attemptReconnect_delay:
  "enat (retryCount s) < maxRetries s \<Longrightarrow>
   scheduledDelay (attemptReconnect observers r s)
     = Some (min (backoffTime s * (r * 0.3 + 0.85)) (maxBackoff s))"
  by (auto simp: attemptReconnect_def Let_def dest: leD)

lemma attemptReconnect_exhausted:
  "maxRetries s \<le> enat (retryCount s) \<Longrightarrow>
   scheduledDelay (attemptReconnect observers r s) = scheduledDelay s"
  by (simp add: attemptReconnect_def)

lemma sessionStep_backoff:
  assumes "0 \<le> backoffTime s" and "0 \<le> maxBackoff s" and "listeners env = observers"
  shows "0 \<le> backoffTime (sessionStep env s x) \<and> maxBackoff (sessionStep env s x) = maxBackoff s"
  using assms
  by (cases x) (simp_all add: disconnect_def onOpen_def onMessage_def onError_def onClose_def
      onReconnectTimer_def Let_def)

lemma sessionRun_backoff:
  assumes "0 \<le> backoffTime s" and "0 \<le> maxBackoff s" and "listeners env = observers"
  shows "0 \<le> backoffTime (sessionRun env s ins) \<and> maxBackoff (sessionRun env s ins) = maxBackoff s"
  using assms(1,2)
proof (induction ins arbitrary: s)
  case Nil
  then show ?case by (simp add: sessionRun_def)
next
  case (Cons x xs)
  from sessionStep_backoff [OF Cons.prems assms(3)]
  have step: "0 \<le> backoffTime (sessionStep env s x)" "maxBackoff (sessionStep env s x) = maxBackoff s"
    by simp_all
  with Cons.prems have "0 \<le> maxBackoff (sessionStep env s x)" by simp
  from Cons.IH [OF step(1) this] step(2)
  show ?case by (simp add: sessionRun_def)
qed

lemma jitter_range:
  fixes r :: real
  assumes "0 \<le> r" and "r \<le> 1"
  shows "0.85 \<le> r * 0.3 + 0.85" and "r * 0.3 + 0.85 \<le> 1.15"
  using assms by simp_all

lemma fresh_maxRetries: "enat 0 < maxRetries (newWebSocketManager opts)"
  by (cases "opt_maxRetries opts")
     (auto simp: newWebSocketManager_def orDefault_def zero_enat_def [symmetric])

lemmas session_eval = newWebSocketManager_def connect_def setState_def emit_def observers_def
  handleError_def cleanUp_def disconnect_def attemptReconnect_def onOpen_def onMessage_def onError_def
  onClose_def onReconnectTimer_def sessionRun_def goodTransport_def reachable_def delivers_def
  orDefault_def Let_def

section \<open>Sending outside the connected state\<close>

text \<open>
  C7. \<^verbatim>\<open>send\<close> succeeds only in the connected state: in every other state, or without a
  socket handle, it returns \<^verbatim>\<open>false\<close> and leaves the session as it was (nothing is emitted,
  the transport is not called, no exception leaves the method); and whenever it returns
  \<^verbatim>\<open>true\<close> the session is connected and holds a handle.
\<close>

theorem send_fails_unless_connected:
  "(state s \<noteq> CONNECTED \<or> ws s = None \<longrightarrow> send L tx data s = (False, s)) \<and>
   (fst (send L tx data s) \<longrightarrow> state s = CONNECTED \<and> ws s \<noteq> None)"
  by (auto simp: send_def)

theorem send_fails_unless_connected_witness:
  "state (newWebSocketManager defaultOptions) = DISCONNECTED \<and>
   send observers delivers ''ping'' (newWebSocketManager defaultOptions)
     = (False, newWebSocketManager defaultOptions) \<and>
   fst (send observers delivers ''ping'' connectedSession) \<and> state connectedSession = CONNECTED"
  using send_fails_unless_connected [of "newWebSocketManager defaultOptions" observers delivers "''ping''"]
    send_fails_unless_connected [of connectedSession observers delivers "''ping''"]
  by (simp add: connectedSession_def defaultOptions_def send_def session_eval)

section \<open>An error while connected\<close>

text \<open>
  C5 as stated fails: the error handler moves a connected session to the state
  \<^verbatim>\<open>ERROR\<close>, so \<^verbatim>\<open>getState\<close> no longer returns the state before the error.
\<close>

theorem error_changes_state_counterexample:
  "getState connectedSession = CONNECTED \<and>
   getState (sessionStep goodTransport connectedSession (WsError ''socket hang up'')) = ERROR"
  by (simp add: getState_def connectedSession_def defaultOptions_def session_eval)

text \<open>
  C5, amended. An error received from the socket moves the session to the state
  \<^verbatim>\<open>ERROR\<close> (emitting that state change unless it was already there) and emits the error;
  it leaves the handle, the attempt counter, the backoff time and the timer as they were,
  so it starts no reconnection itself. The close event that follows does: unless the
  retries are exhausted, it moves the session to \<^verbatim>\<open>RECONNECTING\<close> and schedules the reconnect.
  The listeners are those that only observe.
\<close>

theorem error_only_sets_error_state:
  "getState (onError observers err s) = ERROR \<and>
   emitted (onError observers err s)
     = emitted s @ (if state s = ERROR then [] else [StateChange ERROR]) @ [ErrorEvent err] \<and>
   ws (onError observers err s) = ws s \<and>
   retryCount (onError observers err s) = retryCount s \<and>
   backoffTime (onError observers err s) = backoffTime s \<and>
   reconnectTimer (onError observers err s) = reconnectTimer s \<and>
   (enat (retryCount s) < maxRetries s \<longrightarrow>
      getState (onClose observers r (onError observers err s)) = RECONNECTING \<and>
      scheduledDelay (onClose observers r (onError observers err s)) =
        Some (min (backoffTime s * (r * 0.3 + 0.85)) (maxBackoff s)))"
  by (auto simp: getState_def onError_def onClose_def Let_def attemptReconnect_def handleError_def
        setState_emitted dest: leD)

theorem error_only_sets_error_state_witness:
  "getState (onError observers ''socket hang up'' connectedSession) = ERROR \<and>
   scheduledDelay (onError observers ''socket hang up'' connectedSession) = None \<and>
   getState (onClose observers (1/2) (onError observers ''socket hang up'' connectedSession)) = RECONNECTING \<and>
   scheduledDelay (onClose observers (1/2) (onError observers ''socket hang up'' connectedSession)) = Some 1000"
  using error_only_sets_error_state [of "''socket hang up''" connectedSession "1/2"]
  by (simp add: connectedSession_def defaultOptions_def session_eval)

section \<open>The reset of the backoff on open\<close>

text \<open>
  C2. The open listener resets the attempt counter to 0, but it writes the constant 1000
  into the backoff time, not the configured initial value. With an initial backoff of 500 ms
  the first failure schedules 500 ms (jitter factor 1), and the failure that follows a
  successful open schedules 1000 ms.
\<close>

theorem open_resets_backoff_to_1000:
  "backoffTime (newWebSocketManager halfSecondOptions) = 500 \<and>
   scheduledDelay (sessionRun goodTransport (newWebSocketManager halfSecondOptions) [CallConnect, WsClose (1/2)])
     = Some 500 \<and>
   retryCount failThenSucceed = 0 \<and>
   backoffTime failThenSucceed = 1000 \<and>
   scheduledDelay (sessionStep goodTransport failThenSucceed (WsClose (1/2))) = Some 1000"
  by (simp add: failThenSucceed_def halfSecondOptions_def session_eval)

section \<open>Bounds of the reconnect delay\<close>

text \<open>
  C6 as stated fails in its last part: the ceiling is applied after the jitter, so with an
  initial backoff of 1000 ms and a ceiling of 500 ms the first retry is scheduled after
  500 ms, below \<open>1000 * 0.85\<close>.
\<close>

theorem first_delay_below_initial_counterexample:
  "backoffTime (newWebSocketManager tightCeilingOptions) = 1000 \<and>
   scheduledDelay (sessionRun goodTransport (newWebSocketManager tightCeilingOptions) [CallConnect, WsClose (1/2)])
     = Some 500 \<and>
   \<not> (backoffTime (newWebSocketManager tightCeilingOptions) * 0.85 \<le> 500)"
  by (simp add: tightCeilingOptions_def session_eval)

text \<open>
  C6, amended. For a session built from options with a non-negative initial backoff and
  ceiling, in every state it reaches and for every jitter draw in \<open>[0, 1]\<close> (a factor in
  \<open>[0.85, 1.15]\<close>), a reconnect attempt that is not exhausted schedules a delay that is
  non-negative and at most the ceiling, hence at most \<open>ceiling * 1.15\<close>. The first retry of
  a freshly built session is scheduled after \<open>min (initial * jitter) ceiling\<close>, which is at
  least \<open>min (initial * 0.85) ceiling\<close>. The transport is arbitrary and the listeners are
  those that only observe.
\<close>

theorem reconnect_delay_bounds:
  assumes "0 \<le> backoffTime (newWebSocketManager opts)"
      and "0 \<le> maxBackoff (newWebSocketManager opts)"
      and "0 \<le> r" and "r \<le> 1"
  shows "(enat (retryCount (sessionRun (env\<lparr>listeners := observers\<rparr>) (newWebSocketManager opts) ins))
            < maxRetries (sessionRun (env\<lparr>listeners := observers\<rparr>) (newWebSocketManager opts) ins) \<longrightarrow>
          (\<exists>d. scheduledDelay (attemptReconnect observers r
                   (sessionRun (env\<lparr>listeners := observers\<rparr>) (newWebSocketManager opts) ins)) = Some d
              \<and> 0 \<le> d \<and> d \<le> maxBackoff (newWebSocketManager opts)
              \<and> d \<le> maxBackoff (newWebSocketManager opts) * 1.15))
       \<and> (newWebSocket env (opt_url opts) = Inr sock \<longrightarrow>
            scheduledDelay (sessionRun (env\<lparr>listeners := observers\<rparr>) (newWebSocketManager opts)
                [CallConnect, WsClose r])
              = Some (min (backoffTime (newWebSocketManager opts) * (r * 0.3 + 0.85))
                          (maxBackoff (newWebSocketManager opts)))
          \<and> min (backoffTime (newWebSocketManager opts) * 0.85) (maxBackoff (newWebSocketManager opts))
              \<le> min (backoffTime (newWebSocketManager opts) * (r * 0.3 + 0.85))
                          (maxBackoff (newWebSocketManager opts)))"
proof (intro conjI impI)
  let ?env = "env\<lparr>listeners := observers\<rparr>"
  let ?fresh = "newWebSocketManager opts"
  let ?cur = "sessionRun ?env ?fresh ins"
  let ?d = "min (backoffTime ?cur * (r * 0.3 + 0.85)) (maxBackoff ?fresh)"
  assume more: "enat (retryCount ?cur) < maxRetries ?cur"
  have obs: "listeners ?env = observers" by simp
  have inv: "0 \<le> backoffTime ?cur" "maxBackoff ?cur = maxBackoff ?fresh"
    using sessionRun_backoff [OF assms(1,2) obs] by simp_all
  have j: "0 \<le> r * 0.3 + 0.85" using jitter_range(1) [OF assms(3,4)] by simp
  from attemptReconnect_delay [OF more]
  have "scheduledDelay (attemptReconnect observers r ?cur) = Some ?d" by (simp only: inv(2))
  moreover have "0 \<le> backoffTime ?cur * (r * 0.3 + 0.85)"
    using inv(1) j by (rule mult_nonneg_nonneg)
  then have "0 \<le> ?d" using assms(2) by simp
  moreover have "?d \<le> maxBackoff ?fresh" by simp
  moreover have "?d \<le> maxBackoff ?fresh * 1.15" using assms(2) by simp
  ultimately show "\<exists>d. scheduledDelay (attemptReconnect observers r ?cur) = Some d
              \<and> 0 \<le> d \<and> d \<le> maxBackoff ?fresh \<and> d \<le> maxBackoff ?fresh * 1.15"
    by blast
next
  let ?env = "env\<lparr>listeners := observers\<rparr>"
  let ?fresh = "newWebSocketManager opts"
  assume ok: "newWebSocket env (opt_url opts) = Inr sock"
  have u: "url ?fresh = opt_url opts" "state ?fresh = DISCONNECTED" "retryCount ?fresh = 0"
    by (simp_all add: newWebSocketManager_def)
  let ?conn = "connect observers (newWebSocket env) ?fresh"
  have c: "state ?conn = CONNECTING" "ws ?conn = Some sock" "retryCount ?conn = 0"
    "maxRetries ?conn = maxRetries ?fresh"
    using ok u by (simp_all add: connect_def Let_def)
  have "enat (retryCount (cleanUp ?conn)) < maxRetries (cleanUp ?conn)"
    using fresh_maxRetries [of opts] c by simp
  from attemptReconnect_delay [OF this, of r] c
  show "scheduledDelay (sessionRun ?env ?fresh [CallConnect, WsClose r])
              = Some (min (backoffTime ?fresh * (r * 0.3 + 0.85)) (maxBackoff ?fresh))"
    by (simp add: sessionRun_def onClose_def Let_def)
next
  let ?fresh = "newWebSocketManager opts"
  have "backoffTime ?fresh * 0.85 \<le> backoffTime ?fresh * (r * 0.3 + 0.85)"
    using assms(1) jitter_range(1) [OF assms(3,4)] by (intro mult_left_mono) simp_all
  then show "min (backoffTime ?fresh * 0.85) (maxBackoff ?fresh)
              \<le> min (backoffTime ?fresh * (r * 0.3 + 0.85)) (maxBackoff ?fresh)"
    by simp
qed

theorem reconnect_delay_bounds_witness:
  "scheduledDelay (attemptReconnect observers (1/2)
       (sessionRun goodTransport (newWebSocketManager tightCeilingOptions)
         [CallConnect, WsOpen, WsClose 1, TimerExpires])) = Some 500 \<and>
   scheduledDelay (sessionRun goodTransport (newWebSocketManager defaultOptions) [CallConnect, WsClose 0])
       = Some 850 \<and>
   scheduledDelay (sessionRun goodTransport (newWebSocketManager defaultOptions) [CallConnect, WsClose 1])
       = Some 1150"
  using reconnect_delay_bounds [of tightCeilingOptions "1/2" goodTransport
           "[CallConnect, WsOpen, WsClose 1, TimerExpires]" "WebSocket ''wss://p1''"]
    reconnect_delay_bounds [of defaultOptions 0 goodTransport "[]" "WebSocket ''wss://p1''"]
    reconnect_delay_bounds [of defaultOptions 1 goodTransport "[]" "WebSocket ''wss://p1''"]
  by (simp add: tightCeilingOptions_def defaultOptions_def session_eval)

section \<open>Facts about the rotation\<close>

lemma findNotFailed_less: "0 < n \<Longrightarrow> i < n \<Longrightarrow> findNotFailed F n i c < n"
proof (induction F n i c rule: findNotFailed.induct)
  case (1 failed n nextIndex attemptCount)
  then show ?case
    by (subst findNotFailed.simps) simp
qed

lemma findNotFailed_first:
  assumes "d < n - c" and "\<forall>k<d. (i + k) mod n |\<in>| F" and "(i + d) mod n |\<notin>| F" and "i < n"
  shows "findNotFailed F n i c = (i + d) mod n"
  using assms
proof (induction d arbitrary: i c)
  case 0
  then show ?case by (subst findNotFailed.simps) simp
next
  case (Suc d)
  from Suc.prems(2) have "(i + 0) mod n |\<in>| F" by blast
  with Suc.prems(4) have here: "i |\<in>| F" by simp
  from Suc.prems(1) have c: "c < n" "d < n - (c + 1)" by simp_all
  have n: "0 < n" using Suc.prems(4) by simp
  have shift: "(Suc i mod n + k) mod n = (i + Suc k) mod n" for k
    by (simp add: mod_add_left_eq)
  have "findNotFailed F n (Suc i mod n) (c + 1) = (Suc i mod n + d) mod n"
  proof (rule Suc.IH [OF c(2)])
    show "\<forall>k<d. (Suc i mod n + k) mod n |\<in>| F"
      using Suc.prems(2) by (auto simp: shift)
    show "(Suc i mod n + d) mod n |\<notin>| F"
      using Suc.prems(3) by (simp add: shift)
    show "Suc i mod n < n" using n by simp
  qed
  with here c(1) show ?case
    by (subst findNotFailed.simps) (simp add: shift)
qed

lemma not_all_failed:
  assumes "fcard F < n"
  shows "\<exists>j<n. j |\<notin>| F"
proof (rule ccontr)
  assume "\<not> (\<exists>j<n. j |\<notin>| F)"
  then have "{0..<n} \<subseteq> fset F" by auto
  then have "card {0..<n} \<le> card (fset F)" by (intro card_mono) simp_all
  with assms show False by (simp add: fcard.rep_eq)
qed

lemma all_failed:
  assumes "\<forall>i. i |\<in>| F \<longrightarrow> i < n" and "n \<le> fcard F"
  shows "\<forall>i\<in>{0..<n}. i |\<in>| F"
proof -
  from assms(1) have sub: "fset F \<subseteq> {0..<n}" by auto
  have "card (fset F) \<le> card {0..<n}" using sub by (intro card_mono) simp_all
  with assms(2) have "card (fset F) = card {0..<n}" by (simp add: fcard.rep_eq)
  with sub have "fset F = {0..<n}" by (intro card_subset_eq) simp_all
  then show ?thesis by auto
qed

text \<open>The first index after \<open>i\<close>, going round, that is not failed.\<close>

lemma first_not_failed:
  fixes i j n :: nat
  assumes "j < n" and "j |\<notin>| F" and "i < n"
  obtains d where "d < n" and "(i + d) mod n |\<notin>| F" and "\<forall>k<d. (i + k) mod n |\<in>| F"
proof -
  let ?P = "\<lambda>d. d < n \<and> (i + d) mod n |\<notin>| F"
  have "(i + (j + n - i) mod n) mod n = j"
  proof -
    have "(i + (j + n - i) mod n) mod n = (i + (j + n - i)) mod n"
      by (simp add: mod_add_right_eq)
    also have "\<dots> = (j + n) mod n" using assms(3) by simp
    also have "\<dots> = j" using assms(1) by simp
    finally show ?thesis .
  qed
  with assms have "?P ((j + n - i) mod n)" by simp
  then have ex: "\<exists>d. ?P d" ..
  define d where "d = (LEAST d. ?P d)"
  have "?P d" unfolding d_def using ex by (rule LeastI_ex)
  moreover have "\<forall>k<d. (i + k) mod n |\<in>| F"
  proof (intro allI impI)
    fix k assume "k < d"
    then have "\<not> ?P k" unfolding d_def by (rule not_less_Least)
    moreover from \<open>k < d\<close> \<open>?P d\<close> have "k < n" by simp
    ultimately show "(i + k) mod n |\<in>| F" by simp
  qed
  ultimately show thesis using that by blast
qed

lemma find_first:
  assumes "d < n" and "P (g d)" and "\<forall>k<d. \<not> P (g k)"
  shows "find P (map g [0..<n]) = Some (g d)"
  using assms by (subst find_Some_iff) (auto intro!: exI [of _ d])

text \<open>The walk of the loop and the walk of \<open>advance\<close> select the same index.\<close>

lemma walk_find:
  assumes "0 < n" and "fcard G < n"
  shows "find (\<lambda>i. i |\<notin>| G) (map (\<lambda>k. (cur + 1 + k) mod n) [0..<n])
           = Some (findNotFailed G n ((cur + 1) mod n) 0)"
proof -
  from assms(2) obtain j where j: "j < n" "j |\<notin>| G" using not_all_failed by blast
  have i: "Suc cur mod n < n" using assms(1) by simp
  from first_not_failed [OF j i]
  obtain d where d: "d < n" "(Suc cur mod n + d) mod n |\<notin>| G" "\<forall>k<d. (Suc cur mod n + k) mod n |\<in>| G"
    by blast
  have same: "(Suc cur mod n + k) mod n = Suc (cur + k) mod n" for k
    by (simp add: mod_add_left_eq)
  have "findNotFailed G n (Suc cur mod n) 0 = (Suc cur mod n + d) mod n"
    using d i by (intro findNotFailed_first) simp_all
  moreover have "find (\<lambda>i. i |\<notin>| G) (map (\<lambda>k. Suc (cur + k) mod n) [0..<n]) = Some (Suc (cur + d) mod n)"
  proof (rule find_first [OF d(1)])
    show "Suc (cur + d) mod n |\<notin>| G" using d(2) by (simp add: same)
    show "\<forall>k<d. \<not> Suc (cur + k) mod n |\<notin>| G" using d(3) by (simp add: same)
  qed
  ultimately show ?thesis by (simp add: same)
qed

lemma walk_refines:
  assumes "0 < n" and "cur < n"
  shows "map_option (Pair (if n \<le> fcard F then {||} else F))
            (find (\<lambda>i. i |\<notin>| (if n \<le> fcard F then {||} else F)) (map (\<lambda>k. (cur + 1 + k) mod n) [0..<n]))
         = Some (if n \<le> fcard F then {||} else F,
                 findNotFailed (if n \<le> fcard F then {||} else F) n ((cur + 1) mod n) 0)"
proof -
  have "fcard (if n \<le> fcard F then {||} else F) < n" using assms(1) by (simp add: fcard_fempty)
  from walk_find [OF assms(1) this] show ?thesis by simp
qed

lemma advance_code:
  assumes "0 < n" and "cur < n" and "\<forall>i. i |\<in>| F \<longrightarrow> i < n"
  shows "advance n cur F =
           Some (if n \<le> fcard F then {||} else F,
                 findNotFailed (if n \<le> fcard F then {||} else F) n ((cur + 1) mod n) 0)"
proof -
  have "(\<forall>i\<in>{0..<n}. i |\<in>| F) = (n \<le> fcard F)"
  proof
    assume all: "\<forall>i\<in>{0..<n}. i |\<in>| F"
    show "n \<le> fcard F"
    proof (rule ccontr)
      assume "\<not> n \<le> fcard F"
      then have "fcard F < n" by simp
      from not_all_failed [OF this] all show False by auto
    qed
  next
    assume "n \<le> fcard F"
    with assms(3) show "\<forall>i\<in>{0..<n}. i |\<in>| F" by (rule all_failed)
  qed
  then show ?thesis
    using walk_refines [OF assms(1,2), of F] by (simp add: advance_def)
qed

section \<open>Facts about the factory\<close>

lemma createWebSocketManager_fields [simp]:
  "wssEndpoints (createWebSocketManager env f) = wssEndpoints f"
  "currentEndpointIndex (createWebSocketManager env f) = currentEndpointIndex f"
  "failedEndpoints (createWebSocketManager env f) = failedEndpoints f"
  "isReconnecting (createWebSocketManager env f) = isReconnecting f"
  "primaryFailCount (createWebSocketManager env f) = primaryFailCount f"
  "maxPrimaryFailCount (createWebSocketManager env f) = maxPrimaryFailCount f"
  "emitted_f (createWebSocketManager env f) = emitted_f f"
  "switchCount (createWebSocketManager env f) = switchCount f"
  by (simp_all add: createWebSocketManager_def Let_def)

lemma connect_url [simp]: "url (connect observers mk s) = url s"
  by (simp add: connect_def Let_def split: sum.splits)

lemma createWebSocketManager_session:
  "map_option url (wsManager (createWebSocketManager env f)) = Some (urlOf (getCurrentEndpoint f))"
  by (simp add: createWebSocketManager_def Let_def getCurrentEndpoint_def newWebSocketManager_def)

lemma switchEndpoint_fields [simp]:
  "wssEndpoints (switchEndpoint env f) = wssEndpoints f"
  "maxPrimaryFailCount (switchEndpoint env f) = maxPrimaryFailCount f"
  "emitted_f (switchEndpoint env f) = emitted_f f"
  "switchCount (switchEndpoint env f) = switchCount f + 1"
  "isReconnecting (switchEndpoint env f) = False"
  by (simp_all add: switchEndpoint_def Let_def)

lemma switchEndpoint_rotation:
  "failedEndpoints (switchEndpoint env f) =
     (if length (wssEndpoints f) \<le> fcard (finsert (currentEndpointIndex f) (failedEndpoints f))
      then {||} else finsert (currentEndpointIndex f) (failedEndpoints f))"
  "currentEndpointIndex (switchEndpoint env f) =
     findNotFailed
       (if length (wssEndpoints f) \<le> fcard (finsert (currentEndpointIndex f) (failedEndpoints f))
        then {||} else finsert (currentEndpointIndex f) (failedEndpoints f))
       (length (wssEndpoints f)) ((currentEndpointIndex f + 1) mod length (wssEndpoints f)) 0"
  by (simp_all add: switchEndpoint_def Let_def)

lemma switchEndpoint_session:
  "map_option url (wsManager (switchEndpoint env f)) = Some (urlOf (getCurrentEndpoint (switchEndpoint env f)))"
  by (simp add: switchEndpoint_def Let_def createWebSocketManager_session getCurrentEndpoint_def)

section \<open>Facts about the pool\<close>

lemma maxRetries_cm_pos: "0 < maxRetries_cm p"
  by (simp add: maxRetries_cm_def orDefault_def split: option.splits)

lemma setState_cm_fields [simp]:
  "httpsEndpoints (setState_cm st p) = httpsEndpoints p"
  "currentEndpointIndex_cm (setState_cm st p) = currentEndpointIndex_cm p"
  "connection (setState_cm st p) = connection p"
  "state_cm (setState_cm st p) = st"
  "maxRetriesConfig (setState_cm st p) = maxRetriesConfig p"
  "currentRetries (setState_cm st p) = currentRetries p"
  "failedEndpoints_cm (setState_cm st p) = failedEndpoints_cm p"
  "maxRetries_cm (setState_cm st p) = maxRetries_cm p"
  by (simp_all add: setState_cm_def emit_cm_def maxRetries_cm_def)

lemma emit_cm_fields [simp]:
  "httpsEndpoints (emit_cm ev p) = httpsEndpoints p"
  "currentEndpointIndex_cm (emit_cm ev p) = currentEndpointIndex_cm p"
  "connection (emit_cm ev p) = connection p"
  "state_cm (emit_cm ev p) = state_cm p"
  "maxRetriesConfig (emit_cm ev p) = maxRetriesConfig p"
  "currentRetries (emit_cm ev p) = currentRetries p"
  "failedEndpoints_cm (emit_cm ev p) = failedEndpoints_cm p"
  "maxRetries_cm (emit_cm ev p) = maxRetries_cm p"
  by (simp_all add: emit_cm_def maxRetries_cm_def)

text \<open>While retries are left, a failure keeps the endpoint; so does a connection attempt.\<close>

lemma handleConnectionFailure_retry:
  assumes "currentRetries p < maxRetries_cm p"
  shows "currentEndpointIndex_cm (handleConnectionFailure nc err p) = currentEndpointIndex_cm p"
    and "failedEndpoints_cm (handleConnectionFailure nc err p) = failedEndpoints_cm p"
    and "httpsEndpoints (handleConnectionFailure nc err p) = httpsEndpoints p"
  using assms by (simp_all add: handleConnectionFailure.simps Let_def)

lemma connect_cm_retry:
  assumes "currentRetries p < maxRetries_cm p"
  shows "currentEndpointIndex_cm (connect_cm nc p) = currentEndpointIndex_cm p"
    and "failedEndpoints_cm (connect_cm nc p) = failedEndpoints_cm p"
    and "httpsEndpoints (connect_cm nc p) = httpsEndpoints p"
  using assms
  by (simp_all add: connect_cm.simps Let_def handleConnectionFailure_retry split: sum.splits)

lemma switchEndpoint_cm_rotation:
  assumes "currentRetries p < maxRetries_cm p"
  shows "failedEndpoints_cm (switchEndpoint_cm nc p) =
     (if length (httpsEndpoints p) \<le> fcard (finsert (currentEndpointIndex_cm p) (failedEndpoints_cm p))
      then {||} else finsert (currentEndpointIndex_cm p) (failedEndpoints_cm p))"
  and "currentEndpointIndex_cm (switchEndpoint_cm nc p) =
     findNotFailed
       (if length (httpsEndpoints p) \<le> fcard (finsert (currentEndpointIndex_cm p) (failedEndpoints_cm p))
        then {||} else finsert (currentEndpointIndex_cm p) (failedEndpoints_cm p))
       (length (httpsEndpoints p)) ((currentEndpointIndex_cm p + 1) mod length (httpsEndpoints p)) 0"
  using assms
  by (simp_all add: switchEndpoint_cm.simps Let_def connect_cm_retry maxRetries_cm_def)

lemma pool_endpoints [simp]:
  "httpsEndpoints (connect_cm nc p) = httpsEndpoints p"
  "httpsEndpoints (handleConnectionFailure nc err p) = httpsEndpoints p"
  "httpsEndpoints (switchEndpoint_cm nc p) = httpsEndpoints p"
proof (induction nc p and nc err p and nc p rule: connect_cm_handleConnectionFailure_switchEndpoint_cm.induct)
  case (1 newConnection p)
  then show ?case
    by (subst connect_cm.simps) (simp add: Let_def split: sum.splits)
next
  case (2 newConnection err p)
  then show ?case
    by (subst handleConnectionFailure.simps) (simp add: Let_def)
next
  case (3 newConnection p)
  then show ?case
    by (subst switchEndpoint_cm.simps) (simp add: Let_def)
qed

section \<open>Endpoint rotation on a switch\<close>

text \<open>
  C1. A switch marks the current index failed and then advances as the rotation table of the
  design does: if the failed set now covers every index it is cleared before the selection,
  and the selection walks forward circularly from the current index, skipping the failed
  indices; the selected index becomes the current one, and the new session is built for
  that endpoint. This holds for \<^verbatim>\<open>switchEndpoint\<close> of the factory and, when it is called as the
  failure handler calls it (retry counter reset to 0), of the connection manager. The witness
  is the table \<open>[A, B, C]\<close>: with A and B failed the current endpoint is C, and a further
  switch clears the failed set and selects A.
\<close>

theorem switchEndpoint_advances:
  assumes "wssEndpoints f \<noteq> []"
      and "currentEndpointIndex f < length (wssEndpoints f)"
      and "\<forall>i. i |\<in>| failedEndpoints f \<longrightarrow> i < length (wssEndpoints f)"
      and "httpsEndpoints p \<noteq> []"
      and "currentEndpointIndex_cm p < length (httpsEndpoints p)"
      and "\<forall>i. i |\<in>| failedEndpoints_cm p \<longrightarrow> i < length (httpsEndpoints p)"
      and "currentRetries p = 0"
  shows "advance (length (wssEndpoints f)) (currentEndpointIndex f)
             (finsert (currentEndpointIndex f) (failedEndpoints f))
           = Some (failedEndpoints (switchEndpoint env f), currentEndpointIndex (switchEndpoint env f))
       \<and> map_option url (wsManager (switchEndpoint env f))
           = getCurrentEndpoint (switchEndpoint env f)
       \<and> advance (length (httpsEndpoints p)) (currentEndpointIndex_cm p)
             (finsert (currentEndpointIndex_cm p) (failedEndpoints_cm p))
           = Some (failedEndpoints_cm (switchEndpoint_cm nc p), currentEndpointIndex_cm (switchEndpoint_cm nc p))"
proof (intro conjI)
  let ?n = "length (wssEndpoints f)"
  let ?F = "finsert (currentEndpointIndex f) (failedEndpoints f)"
  have n: "0 < ?n" using assms(1) by simp
  have F: "\<forall>i. i |\<in>| ?F \<longrightarrow> i < ?n" using assms(2,3) by auto
  show "advance ?n (currentEndpointIndex f) ?F
          = Some (failedEndpoints (switchEndpoint env f), currentEndpointIndex (switchEndpoint env f))"
    by (simp only: advance_code [OF n assms(2) F] switchEndpoint_rotation)
  have "currentEndpointIndex (switchEndpoint env f) < ?n"
    using n by (simp add: switchEndpoint_rotation findNotFailed_less)
  then have "getCurrentEndpoint (switchEndpoint env f)
               = Some (wssEndpoints f ! currentEndpointIndex (switchEndpoint env f))"
    by (simp add: getCurrentEndpoint_def lookup_def)
  then show "map_option url (wsManager (switchEndpoint env f)) = getCurrentEndpoint (switchEndpoint env f)"
    by (simp add: switchEndpoint_session urlOf_def)
next
  let ?n = "length (httpsEndpoints p)"
  let ?F = "finsert (currentEndpointIndex_cm p) (failedEndpoints_cm p)"
  have n: "0 < ?n" using assms(4) by simp
  have F: "\<forall>i. i |\<in>| ?F \<longrightarrow> i < ?n" using assms(5,6) by auto
  have r: "currentRetries p < maxRetries_cm p" using assms(7) maxRetries_cm_pos [of p] by simp
  show "advance ?n (currentEndpointIndex_cm p) ?F
          = Some (failedEndpoints_cm (switchEndpoint_cm nc p), currentEndpointIndex_cm (switchEndpoint_cm nc p))"
    by (simp only: advance_code [OF n assms(5) F] switchEndpoint_cm_rotation [OF r])
qed


lemmas factory_eval = newWebSocketManagerFactory_def createWebSocketManager_def switchEndpoint_def
  handleConnectionError_def onSessionOpen_def onSessionMessage_def onSessionError_def
  onSessionStateChange_def emit_f_def getCurrentEndpoint_def lookup_def urlOf_def factoryOf_def
  factoryRun_def sessionOptions_def findNotFailed.simps fcard_finsert_if fcard_fempty

lemmas pool_eval = newConnectionManager_def connect_cm.simps handleConnectionFailure.simps
  switchEndpoint_cm.simps setState_cm_def emit_cm_def maxRetries_cm_def getCurrentEndpoint_cm_def
  onTestResult_def getConnection_def onHealthCheck_def testConnection_def stop_def poolRun_def
  httpOnly_def poolConfig_def poolOf_def lookup_def urlOf_def orDefault_def Let_def
  findNotFailed.simps fcard_finsert_if fcard_fempty

lemma afterTwoSwitches_eval:
  "wssEndpoints afterTwoSwitches = [''A'', ''B'', ''C'']"
  "currentEndpointIndex afterTwoSwitches = 2"
  "failedEndpoints afterTwoSwitches = {|0, 1|}"
  by (simp_all add: afterTwoSwitches_def threeEndpoints_def factory_eval session_eval finsert_commute)

lemma threeRpcEndpoints_eval:
  "httpsEndpoints threeRpcEndpoints = [''https://a'', ''https://b'', ''https://c'']"
  "currentEndpointIndex_cm threeRpcEndpoints = 0"
  "failedEndpoints_cm threeRpcEndpoints = {||}"
  "currentRetries threeRpcEndpoints = 0"
  by (simp_all add: threeRpcEndpoints_def pool_eval)

theorem switchEndpoint_advances_witness:
  "getCurrentEndpoint threeEndpoints = Some ''A'' \<and>
   getCurrentEndpoint afterTwoSwitches = Some ''C'' \<and>
   failedEndpoints afterTwoSwitches = {|0, 1|} \<and>
   advance 3 2 (finsert 2 {|0, 1|}) = Some ({||}, 0) \<and>
   failedEndpoints (switchEndpoint goodTransport afterTwoSwitches) = {||} \<and>
   getCurrentEndpoint (switchEndpoint goodTransport afterTwoSwitches) = Some ''A'' \<and>
   map_option url (wsManager (switchEndpoint goodTransport afterTwoSwitches)) = Some ''A'' \<and>
   advance 3 0 (finsert 0 {||}) = Some ({|0|}, 1) \<and>
   getCurrentEndpoint_cm (switchEndpoint_cm httpOnly threeRpcEndpoints) = Some ''https://b''"
proof -
  have a: "wssEndpoints afterTwoSwitches \<noteq> []"
    "currentEndpointIndex afterTwoSwitches < length (wssEndpoints afterTwoSwitches)"
    "\<forall>i. i |\<in>| failedEndpoints afterTwoSwitches \<longrightarrow> i < length (wssEndpoints afterTwoSwitches)"
    by (auto simp: afterTwoSwitches_eval)
  have b: "httpsEndpoints threeRpcEndpoints \<noteq> []"
    "currentEndpointIndex_cm threeRpcEndpoints < length (httpsEndpoints threeRpcEndpoints)"
    "\<forall>i. i |\<in>| failedEndpoints_cm threeRpcEndpoints \<longrightarrow> i < length (httpsEndpoints threeRpcEndpoints)"
    "currentRetries threeRpcEndpoints = 0"
    by (auto simp: threeRpcEndpoints_eval)
  have c: "failedEndpoints (switchEndpoint goodTransport afterTwoSwitches) = {||}"
    "currentEndpointIndex (switchEndpoint goodTransport afterTwoSwitches) = 0"
    by (simp_all add: switchEndpoint_rotation afterTwoSwitches_eval findNotFailed.simps fcard_finsert_if fcard_fempty)
  have d: "failedEndpoints_cm (switchEndpoint_cm httpOnly threeRpcEndpoints) = {|0|}"
    "currentEndpointIndex_cm (switchEndpoint_cm httpOnly threeRpcEndpoints) = 1"
    using maxRetries_cm_pos [of threeRpcEndpoints]
    by (simp_all add: switchEndpoint_cm_rotation threeRpcEndpoints_eval findNotFailed.simps fcard_finsert_if fcard_fempty)
  have e: "getCurrentEndpoint threeEndpoints = Some ''A''"
    by (simp add: threeEndpoints_def factoryOf_def newWebSocketManagerFactory_def getCurrentEndpoint_def lookup_def)
  from switchEndpoint_advances [OF a b, of goodTransport httpOnly] c d e
  show ?thesis
    by (simp add: afterTwoSwitches_eval threeRpcEndpoints_eval getCurrentEndpoint_def
        getCurrentEndpoint_cm_def lookup_def numeral_3_eq_3)
qed

section \<open>Facts about the listeners of the factory\<close>

lemma emit_f_fields [simp]:
  "wssEndpoints (emit_f ev f) = wssEndpoints f"
  "currentEndpointIndex (emit_f ev f) = currentEndpointIndex f"
  "failedEndpoints (emit_f ev f) = failedEndpoints f"
  "isReconnecting (emit_f ev f) = isReconnecting f"
  "primaryFailCount (emit_f ev f) = primaryFailCount f"
  "maxPrimaryFailCount (emit_f ev f) = maxPrimaryFailCount f"
  "switchCount (emit_f ev f) = switchCount f"
  "emitted_f (emit_f ev f) = emitted_f f @ [ev]"
  by (simp_all add: emit_f_def)

lemma switchEndpoint_inv:
  assumes "factoryInv f"
  shows "factoryInv (switchEndpoint env f)"
proof -
  let ?n = "length (wssEndpoints f)"
  from assms have n: "0 < ?n" and cur: "currentEndpointIndex f < ?n"
    and failed: "\<forall>i. i |\<in>| failedEndpoints f \<longrightarrow> i < ?n"
    by (simp_all add: factoryInv_def)
  have "currentEndpointIndex (switchEndpoint env f) < ?n"
    using n by (simp add: switchEndpoint_rotation findNotFailed_less)
  moreover have "\<forall>i. i |\<in>| failedEndpoints (switchEndpoint env f) \<longrightarrow> i < ?n"
    using cur failed by (auto simp: switchEndpoint_rotation)
  ultimately show ?thesis using n by (simp add: factoryInv_def)
qed

lemma factoryInv_updates [simp]:
  "factoryInv (emit_f ev f) = factoryInv f"
  "factoryInv (f\<lparr>isReconnecting := b\<rparr>) = factoryInv f"
  "factoryInv (f\<lparr>primaryFailCount := k\<rparr>) = factoryInv f"
  "factoryInv (f\<lparr>wsManager := w\<rparr>) = factoryInv f"
  "factoryInv (f\<lparr>replaced := rs\<rparr>) = factoryInv f"
  "factoryInv (createWebSocketManager env f) = factoryInv f"
  by (simp_all add: factoryInv_def)

lemma handleConnectionError_inv:
  assumes "factoryInv f"
  shows "factoryInv (handleConnectionError env err f) \<and>
         wssEndpoints (handleConnectionError env err f) = wssEndpoints f"
  using assms by (simp add: handleConnectionError_def Let_def switchEndpoint_inv)

lemma onSessionStateChange_inv:
  assumes "factoryInv f"
  shows "factoryInv (onSessionStateChange env st f) \<and>
         wssEndpoints (onSessionStateChange env st f) = wssEndpoints f"
  using assms by (simp add: onSessionStateChange_def Let_def switchEndpoint_inv)

lemma sessionListener_inv:
  assumes "factoryInv f"
  shows "factoryInv (sessionListener env ev f) \<and> wssEndpoints (sessionListener env ev f) = wssEndpoints f"
  using assms handleConnectionError_inv [OF assms] onSessionStateChange_inv [OF assms]
  by (cases ev) (simp_all add: onSessionOpen_def onSessionMessage_def onSessionError_def)

text \<open>
  The events that can precede a switch within one operation of the session (the state
  changes to \<^verbatim>\<open>CONNECTING\<close>, \<^verbatim>\<open>ERROR\<close> and \<^verbatim>\<open>DISCONNECTED\<close>) leave the decision of the
  listeners as it was.
\<close>

lemma ownerListeners_stable:
  assumes "st = CONNECTING \<or> st = ERROR \<or> st = DISCONNECTED"
  shows "ownerListeners env (sessionListener env (StateChange st) f) = ownerListeners env f"
proof (intro ext)
  fix ev s
  from assms have g: "onSessionStateChange env st f = emit_f (StateChange st) f"
    by (auto simp: onSessionStateChange_def)
  have "switchCount (sessionListener env ev (emit_f (StateChange st) f)) = switchCount (sessionListener env ev f)"
    by (cases ev)
       (simp_all add: onSessionOpen_def onSessionMessage_def onSessionError_def handleConnectionError_def
          onSessionStateChange_def Let_def)
  then show "ownerListeners env (sessionListener env (StateChange st) f) ev s = ownerListeners env f ev s"
    by (simp add: ownerListeners_def g)
qed

lemma deliver_inv:
  assumes "factoryInv f"
  shows "factoryInv (deliver env f evs) \<and> wssEndpoints (deliver env f evs) = wssEndpoints f"
  using assms
proof (induction evs arbitrary: f)
  case Nil
  then show ?case by simp
next
  case (Cons ev evs)
  from sessionListener_inv [OF Cons.prems, of env ev]
  have step: "factoryInv (sessionListener env ev f)" "wssEndpoints (sessionListener env ev f) = wssEndpoints f"
    by simp_all
  from Cons.IH [OF step(1)] step show ?case by (simp add: Let_def)
qed

lemma ownedStep_inv:
  assumes "factoryInv f"
  shows "factoryInv (ownedStep env x f) \<and> wssEndpoints (ownedStep env x f) = wssEndpoints f"
  using deliver_inv [OF assms]
  by (simp add: ownedStep_def Let_def assms split: option.splits)

lemma factoryStep_inv:
  assumes "factoryInv f"
  shows "factoryInv (factoryStep env f x) \<and> wssEndpoints (factoryStep env f x) = wssEndpoints f"
  using assms sessionListener_inv [OF assms] ownedStep_inv [OF assms]
  by (cases x)
     (simp_all add: getWebSocketManager_def send_f_def connect_f_def disconnect_f_def replacedStep_def
        split: option.splits)

lemma factoryRun_inv:
  assumes "factoryInv f"
  shows "factoryInv (factoryRun env f ins) \<and> wssEndpoints (factoryRun env f ins) = wssEndpoints f"
  using assms
proof (induction ins arbitrary: f)
  case Nil
  then show ?case by (simp add: factoryRun_def)
next
  case (Cons x xs)
  from factoryStep_inv [OF Cons.prems, of env x]
  have step: "factoryInv (factoryStep env f x)" "wssEndpoints (factoryStep env f x) = wssEndpoints f"
    by simp_all
  from Cons.IH [OF step(1)] step(2) show ?case by (simp add: factoryRun_def)
qed

lemma newWebSocketManagerFactory_inv:
  assumes "newWebSocketManagerFactory env endpoints opts = Inr f"
  shows "factoryInv f" and "wssEndpoints f = endpoints" and "endpoints \<noteq> []"
    and "currentEndpointIndex f = 0" and "failedEndpoints f = {||}" and "switchCount f = 0"
    and "primaryFailCount f = 0" and "isReconnecting f = False" and "maxPrimaryFailCount f = 3"
  using assms
  by (auto simp: newWebSocketManagerFactory_def factoryInv_def split: if_splits)


lemma switch_from_primary:
  assumes "1 < length (wssEndpoints f)" and "currentEndpointIndex f = 0" and "failedEndpoints f = {||}"
  shows "currentEndpointIndex (switchEndpoint env f) = 1"
    and "failedEndpoints (switchEndpoint env f) = {|0|}"
  using assms
  by (simp_all add: switchEndpoint_rotation fcard_finsert_if fcard_fempty findNotFailed.simps)

subsection \<open>The example factories and pools\<close>

lemma twoEndpoints_built:
  "newWebSocketManagerFactory goodTransport [''wss://p1'', ''wss://p2''] sessionOptions = Inr twoEndpoints"
  by (simp add: twoEndpoints_def factoryOf_def newWebSocketManagerFactory_def)

text \<open>
  The example observations are what the session of the primary endpoint emits, after the
  \<^verbatim>\<open>CONNECTING\<close> it emits while the constructor connects it.
\<close>

lemma twoEndpoints_session: "wsManager twoEndpoints = Some (sessionRun goodTransport primarySession [CallConnect])"
  by (simp add: twoEndpoints_def factoryOf_def newWebSocketManagerFactory_def createWebSocketManager_def
      primarySession_def lookup_def urlOf_def sessionRun_def goodTransport_def Let_def)

lemma twoErrorsWhileConnected_session [simp]:
  "wsManager twoErrorsWhileConnected = wsManager twoEndpoints"
  "replaced twoErrorsWhileConnected = []"
  by (simp_all add: twoErrorsWhileConnected_def twoErrors_def twoEndpoints_def factoryOf_def factoryRun_def
      newWebSocketManagerFactory_def onSessionStateChange_def onSessionOpen_def onSessionError_def
      handleConnectionError_def emit_f_def createWebSocketManager_def Let_def)

lemma primarySession_emits:
  "map SessionEmits (emitted (sessionRun goodTransport primarySession
       [CallConnect, WsClose (1/2), TimerExpires, WsClose (1/2), TimerExpires, WsClose (1/2)]))
     = SessionEmits (StateChange CONNECTING) # closedThrice"
  "map SessionEmits (emitted (sessionRun goodTransport primarySession
       [CallConnect, WsOpen, WsError ''read ECONNRESET'', WsError ''read ECONNRESET'']))
     = SessionEmits (StateChange CONNECTING) # twoErrors"
  "map SessionEmits (emitted (sessionRun goodTransport primarySession
       [CallConnect, WsOpen, WsError ''read ECONNRESET'', WsError ''read ECONNRESET'', WsClose (1/2)]))
     = SessionEmits (StateChange CONNECTING) # twoErrors @ [SessionEmits (StateChange RECONNECTING)]"
  "map SessionEmits (emitted (sessionRun goodTransport primarySession
       [CallConnect, WsError ''ECONNREFUSED'', WsClose (1/2), TimerExpires, WsError ''ECONNREFUSED'']))
     = SessionEmits (StateChange CONNECTING) # refusedTwice"
  by (simp_all add: primarySession_def sessionOptions_def closedThrice_def twoErrors_def refusedTwice_def
      session_eval)

lemma twoEndpoints_quiet: "emitted_f twoEndpoints = []"
  by (simp add: twoEndpoints_def factoryOf_def newWebSocketManagerFactory_def)

lemma brokenPrimary_built:
  "newConnectionManager httpOnly 0 (poolConfig [''ftp://a'', ''https://b'']) = Inr brokenPrimary"
  by (simp add: brokenPrimary_def poolOf_def newConnectionManager_def poolConfig_def Let_def)

lemma twoErrorsWhileConnected_eval:
  "currentEndpointIndex twoErrorsWhileConnected = 0"
  "isReconnecting twoErrorsWhileConnected = False"
  "primaryFailCount twoErrorsWhileConnected = 2"
  "maxPrimaryFailCount twoErrorsWhileConnected = 3"
  "switchCount twoErrorsWhileConnected = 0"
  "failedEndpoints twoErrorsWhileConnected = {||}"
  "wssEndpoints twoErrorsWhileConnected = [''wss://p1'', ''wss://p2'']"
  by (simp_all add: twoErrorsWhileConnected_def twoErrors_def twoEndpoints_def factoryOf_def factoryRun_def
      newWebSocketManagerFactory_def onSessionStateChange_def onSessionOpen_def onSessionError_def
      handleConnectionError_def Let_def)

lemma primaryRefusedTwice_eval:
  "switchCount primaryRefusedTwice = 1"
  "currentEndpointIndex primaryRefusedTwice = 1"
  "wssEndpoints primaryRefusedTwice = [''wss://p1'', ''wss://p2'']"
  by (simp_all add: primaryRefusedTwice_def refusedTwice_def twoEndpoints_def factoryOf_def factoryRun_def
      newWebSocketManagerFactory_def onSessionStateChange_def onSessionOpen_def onSessionError_def
      handleConnectionError_def Let_def switchEndpoint_rotation fcard_finsert_if fcard_fempty
      findNotFailed.simps)

section \<open>Repeated failures of the primary endpoint\<close>

lemma twoEndpoints_eval:
  "wssEndpoints twoEndpoints = [''wss://p1'', ''wss://p2'']"
  "currentEndpointIndex twoEndpoints = 0"
  "failedEndpoints twoEndpoints = {||}"
  "isReconnecting twoEndpoints = False"
  "primaryFailCount twoEndpoints = 0"
  "maxPrimaryFailCount twoEndpoints = 3"
  "switchCount twoEndpoints = 0"
  "emitted_f twoEndpoints = []"
  "replaced twoEndpoints = []"
  by (simp_all add: twoEndpoints_def factoryOf_def newWebSocketManagerFactory_def
      createWebSocketManager_def Let_def)

lemma closesThrice_eval:
  "switchCount (factoryRun goodTransport twoEndpoints closesThrice) = 0"
  "primaryFailCount (factoryRun goodTransport twoEndpoints closesThrice) = 1"
  "currentEndpointIndex (factoryRun goodTransport twoEndpoints closesThrice) = 0"
  "emitted_f (factoryRun goodTransport twoEndpoints closesThrice)
     = [StateChange RECONNECTING, StateChange CONNECTING, StateChange RECONNECTING,
        StateChange CONNECTING, StateChange RECONNECTING]"
  "map_option retryCount (wsManager (factoryRun goodTransport twoEndpoints closesThrice)) = Some 3"
  "wssEndpoints (factoryRun goodTransport twoEndpoints closesThrice) = [''wss://p1'', ''wss://p2'']"
  by (simp_all add: closesThrice_def factoryRun_def ownedStep_def ownerListeners_def twoEndpoints_def
      factoryOf_def newWebSocketManagerFactory_def createWebSocketManager_def sessionOptions_def
      onSessionStateChange_def emit_f_def lookup_def urlOf_def session_eval)

text \<open>
  C3. The \<^verbatim>\<open>state_change\<close> listener counts a \<^verbatim>\<open>RECONNECTING\<close> transition only while the flag
  \<^verbatim>\<open>isReconnecting\<close> is clear, and only a \<^verbatim>\<open>CONNECTED\<close> transition (or a switch) clears the flag.
  The session of the primary, whose socket closes three times before it opens, emits
  three \<^verbatim>\<open>RECONNECTING\<close> transitions with no \<^verbatim>\<open>CONNECTED\<close> between them (it is \<^verbatim>\<open>CONNECTING\<close>
  again in between); the factory, whose threshold is 3, counts one failure and stays on
  the primary. This is so whether the listeners are run on the events that the session
  emits or the socket events are given to the owned session.
\<close>

theorem three_reconnects_counted_once:
  "map SessionEmits (emitted (sessionRun goodTransport primarySession
       [CallConnect, WsClose (1/2), TimerExpires, WsClose (1/2), TimerExpires, WsClose (1/2)]))
     = SessionEmits (StateChange CONNECTING) # closedThrice \<and>
   getCurrentEndpoint twoEndpoints = Some ''wss://p1'' \<and>
   maxPrimaryFailCount twoEndpoints = 3 \<and>
   reconnectingThrice = factoryRun goodTransport twoEndpoints closedThrice \<and>
   switchCount reconnectingThrice = 0 \<and>
   primaryFailCount reconnectingThrice = 1 \<and>
   getCurrentEndpoint reconnectingThrice = Some ''wss://p1'' \<and>
   switchCount (factoryRun goodTransport twoEndpoints closesThrice) = 0 \<and>
   primaryFailCount (factoryRun goodTransport twoEndpoints closesThrice) = 1 \<and>
   getCurrentEndpoint (factoryRun goodTransport twoEndpoints closesThrice) = Some ''wss://p1'' \<and>
   map_option retryCount (wsManager (factoryRun goodTransport twoEndpoints closesThrice)) = Some 3"
  using primarySession_emits(1) closesThrice_eval
  by (simp add: reconnectingThrice_def closedThrice_def twoEndpoints_eval factoryRun_def
      onSessionStateChange_def getCurrentEndpoint_def lookup_def Let_def emit_f_def)

text \<open>
  However many times the session of the primary closes and reconnects without opening, the
  factory counts no further failure and does not switch.
\<close>

lemma reconnect_round_ignored:
  assumes "isReconnecting f"
  shows "isReconnecting (factoryRun env f (reconnectRounds n))
       \<and> primaryFailCount (factoryRun env f (reconnectRounds n)) = primaryFailCount f
       \<and> switchCount (factoryRun env f (reconnectRounds n)) = switchCount f
       \<and> currentEndpointIndex (factoryRun env f (reconnectRounds n)) = currentEndpointIndex f"
  using assms
proof (induction n arbitrary: f)
  case 0
  then show ?case by (simp add: reconnectRounds_def factoryRun_def)
next
  case (Suc n)
  let ?g = "emit_f (StateChange CONNECTING) (emit_f (StateChange RECONNECTING) f)"
  have round: "factoryRun env f (reconnectRounds (Suc n)) = factoryRun env ?g (reconnectRounds n)"
    using Suc.prems by (simp add: reconnectRounds_def factoryRun_def onSessionStateChange_def)
  have "isReconnecting ?g" using Suc.prems by simp
  from Suc.IH [OF this] show ?case by (simp add: round)
qed

lemma reconnect_rounds_counted_once:
  "primaryFailCount (factoryRun goodTransport twoEndpoints (reconnectRounds (Suc n))) = 1 \<and>
   switchCount (factoryRun goodTransport twoEndpoints (reconnectRounds (Suc n))) = 0 \<and>
   currentEndpointIndex (factoryRun goodTransport twoEndpoints (reconnectRounds (Suc n))) = 0"
proof -
  let ?g = "emit_f (StateChange CONNECTING) (emit_f (StateChange RECONNECTING)
              (twoEndpoints\<lparr>isReconnecting := True, primaryFailCount := 1\<rparr>))"
  have round: "factoryRun goodTransport twoEndpoints (reconnectRounds (Suc n))
                 = factoryRun goodTransport ?g (reconnectRounds n)"
    by (simp add: reconnectRounds_def factoryRun_def onSessionStateChange_def twoEndpoints_eval Let_def)
  have "isReconnecting ?g" by simp
  from reconnect_round_ignored [OF this, of goodTransport n] show ?thesis
    by (simp add: round twoEndpoints_eval)
qed

section \<open>Forwarding of the session's events\<close>

text \<open>
  C4. The listeners forward the events of the session, but the \<^verbatim>\<open>state_change\<close> listener
  returns early on the \<^verbatim>\<open>RECONNECTING\<close> transition that brings the counter to the
  threshold: it switches endpoints and does not emit. The session of the primary opens,
  reports two errors and is closed; the factory has counted the two errors, the transition
  to \<^verbatim>\<open>RECONNECTING\<close> that the close causes triggers the switch, and the factory emits
  nothing for it.
\<close>

theorem switching_transition_not_forwarded:
  "map SessionEmits (emitted (sessionRun goodTransport primarySession
       [CallConnect, WsOpen, WsError ''read ECONNRESET'', WsError ''read ECONNRESET'', WsClose (1/2)]))
     = SessionEmits (StateChange CONNECTING) # twoErrors @ [SessionEmits (StateChange RECONNECTING)] \<and>
   twoErrorsWhileConnected = factoryRun goodTransport twoEndpoints twoErrors \<and>
   primaryFailCount twoErrorsWhileConnected = 2 \<and>
   switchCount (factoryStep goodTransport twoErrorsWhileConnected (SessionEmits (StateChange RECONNECTING))) = 1 \<and>
   emitted_f (factoryStep goodTransport twoErrorsWhileConnected (SessionEmits (StateChange RECONNECTING)))
     = emitted_f twoErrorsWhileConnected"
  using primarySession_emits(3)
  by (simp add: twoErrorsWhileConnected_def twoErrors_def twoEndpoints_def factoryOf_def factoryRun_def
      newWebSocketManagerFactory_def onSessionStateChange_def onSessionOpen_def onSessionError_def
      handleConnectionError_def Let_def)

text \<open>
  What each listener emits: every \<^verbatim>\<open>open\<close>, \<^verbatim>\<open>message\<close> and \<^verbatim>\<open>error\<close> event of the session
  unmodified (an error also when it triggers a switch, since \<^verbatim>\<open>handleConnectionError\<close> emits
  first), and every \<^verbatim>\<open>state_change\<close> unmodified except the one that triggers a switch.
\<close>

lemma listeners_forward:
  "emitted_f (sessionListener env Open f) = emitted_f f @ [Open]
   \<and> emitted_f (sessionListener env (Message data) f) = emitted_f f @ [Message data]
   \<and> emitted_f (sessionListener env (ErrorEvent err) f) = emitted_f f @ [ErrorEvent err]
   \<and> emitted_f (sessionListener env (StateChange st) f) =
       (if st = RECONNECTING \<and> \<not> isReconnecting f \<and> currentEndpointIndex f = 0
            \<and> maxPrimaryFailCount f \<le> primaryFailCount f + 1
        then emitted_f f
        else emitted_f f @ [StateChange st])
   \<and> switchCount (sessionListener env (StateChange st) f) =
       (if st = RECONNECTING \<and> \<not> isReconnecting f \<and> currentEndpointIndex f = 0
            \<and> maxPrimaryFailCount f \<le> primaryFailCount f + 1
        then switchCount f + 1
        else switchCount f)"
  by (simp add: onSessionOpen_def onSessionMessage_def onSessionError_def handleConnectionError_def
      onSessionStateChange_def Let_def)

lemma listeners_forward_examples:
  "emitted_f (sessionListener goodTransport (Message ''{}'') twoEndpoints) = [Message ''{}''] \<and>
   emitted_f (sessionListener goodTransport (ErrorEvent ''ECONNREFUSED'') twoEndpoints) = [ErrorEvent ''ECONNREFUSED''] \<and>
   emitted_f (sessionListener goodTransport (StateChange RECONNECTING) twoEndpoints) = [StateChange RECONNECTING] \<and>
   emitted_f (sessionListener goodTransport (StateChange RECONNECTING) twoErrorsWhileConnected)
     = emitted_f twoErrorsWhileConnected \<and>
   switchCount (sessionListener goodTransport (StateChange RECONNECTING) twoErrorsWhileConnected) = 1"
  using listeners_forward [where env = goodTransport and f = twoEndpoints and data = "''{}''"
      and err = "''ECONNREFUSED''" and st = RECONNECTING]
    listeners_forward [where env = goodTransport and f = twoErrorsWhileConnected and data = "''{}''"
      and err = "''ECONNREFUSED''" and st = RECONNECTING]
    newWebSocketManagerFactory_inv [OF twoEndpoints_built]
  by (simp add: twoErrorsWhileConnected_eval twoEndpoints_quiet)

section \<open>Explicit disconnect\<close>

text \<open>
  A \<^verbatim>\<open>disconnect\<close> that is called between two events (the listeners only observe) does what
  the design says: a second call changes nothing, the session is in the state
  \<^verbatim>\<open>DISCONNECTED\<close>, the reconnect timer is cleared and the handle dropped; a close event that
  arrives afterwards schedules no reconnect, and no other socket event and no timer changes
  the session any more.
\<close>

lemma disconnect_between_events:
  "disconnect observers (disconnect observers s) = disconnect observers s \<and>
   state (disconnect observers s) = DISCONNECTED \<and>
   reconnectTimer (disconnect observers s) = None \<and>
   scheduledDelay (disconnect observers s) = None \<and>
   ws (disconnect observers s) = None \<and>
   onClose L r (disconnect observers s) = disconnect observers s \<and>
   sessionStep env (disconnect observers s) (WsClose r) = disconnect observers s \<and>
   sessionStep env (disconnect observers s) (WsError err) = disconnect observers s \<and>
   sessionStep env (disconnect observers s) WsOpen = disconnect observers s \<and>
   sessionStep env (disconnect observers s) TimerExpires = disconnect observers s"
  by (simp add: disconnect_def cleanUp_idle onClose_def Let_def)

lemma disconnect_between_events_example:
  "scheduledDelay reconnectingSession = Some 1000 \<and>
   scheduledDelay (disconnect observers reconnectingSession) = None \<and>
   state (disconnect observers reconnectingSession) = DISCONNECTED \<and>
   sessionRun goodTransport reconnectingSession [CallDisconnect, CallDisconnect, WsClose (1/2), TimerExpires]
     = disconnect observers reconnectingSession"
  using disconnect_between_events [of reconnectingSession observers "1/2" goodTransport]
  by (simp add: reconnectingSession_def connectedSession_def defaultOptions_def session_eval)

lemma connectedSession_eval:
  "state connectedSession = CONNECTED"
  "ws connectedSession = Some (WebSocket ''wss://p1'')"
  "emitted connectedSession = [StateChange CONNECTING, StateChange CONNECTED, Open]"
  "reconnectTimer connectedSession = None"
  by (simp_all add: connectedSession_def defaultOptions_def session_eval)

lemma disconnectedWhileReconnecting_eval:
  "state disconnectedWhileReconnecting = DISCONNECTED"
  "ws disconnectedWhileReconnecting = None"
  "retryCount disconnectedWhileReconnecting = 1"
  "reconnectTimer disconnectedWhileReconnecting = Some (Timeout 1000 True)"
  "url disconnectedWhileReconnecting = ''wss://p1''"
  "emitted disconnectedWhileReconnecting
     = [StateChange CONNECTING, StateChange CONNECTED, Open, StateChange RECONNECTING, StateChange DISCONNECTED]"
  by (simp_all add: disconnectedWhileReconnecting_def disconnectsWhenReconnecting_def connectedSession_def
      defaultOptions_def session_eval)

lemma switchedOnClose_eval:
  "switchCount switchedOnClose = 1"
  "currentEndpointIndex switchedOnClose = 1"
  "wssEndpoints switchedOnClose = [''wss://p1'', ''wss://p2'']"
  "map url (replaced switchedOnClose) = [''wss://p1'']"
  "map state (replaced switchedOnClose) = [DISCONNECTED]"
  "map ws (replaced switchedOnClose) = [None]"
  "map scheduledDelay (replaced switchedOnClose) = [Some 1000]"
  "map_option url (wsManager switchedOnClose) = Some ''wss://p2''"
  "map state (replaced (factoryStep goodTransport switchedOnClose (ReplacedSocket 0 TimerExpires)))
     = [CONNECTING]"
  "map ws (replaced (factoryStep goodTransport switchedOnClose (ReplacedSocket 0 TimerExpires)))
     = [Some (WebSocket ''wss://p1'')]"
  by (simp_all add: switchedOnClose_def closesAfterTwoErrors_def factoryRun_def ownedStep_def replacedStep_def
      ownerListeners_def twoEndpoints_def factoryOf_def newWebSocketManagerFactory_def
      createWebSocketManager_def switchEndpoint_def sessionOptions_def onSessionStateChange_def
      onSessionOpen_def onSessionError_def handleConnectionError_def emit_f_def lookup_def urlOf_def
      findNotFailed.simps fcard_finsert_if fcard_fempty session_eval)

text \<open>
  C8. A \<^verbatim>\<open>disconnect\<close> that a \<^verbatim>\<open>state_change\<close> listener calls while the session reports
  \<^verbatim>\<open>RECONNECTING\<close> does not prevent the reconnect: \<^verbatim>\<open>attemptReconnect\<close> goes on after the
  listener has returned, increments the counter and sets the timer. The connected session
  whose socket closes is left in the state \<^verbatim>\<open>DISCONNECTED\<close>, as the listener's call put it, with
  a reconnect pending after 1000 ms; when the timer expires it connects again. The listener
  of the factory makes this call when the transition brings the failure counter to its
  threshold: the factory is then bound to the backup, and the session of the primary that
  it has replaced and disconnected has a reconnect pending and connects to the primary
  again when its timer expires.
\<close>

theorem reconnect_scheduled_after_disconnect:
  "state connectedSession = CONNECTED \<and>
   emitted disconnectedWhileReconnecting
     = emitted connectedSession @ [StateChange RECONNECTING, StateChange DISCONNECTED] \<and>
   state disconnectedWhileReconnecting = DISCONNECTED \<and>
   retryCount disconnectedWhileReconnecting = 1 \<and>
   scheduledDelay disconnectedWhileReconnecting = Some 1000 \<and>
   state (sessionStep goodTransport disconnectedWhileReconnecting TimerExpires) = CONNECTING \<and>
   ws (sessionStep goodTransport disconnectedWhileReconnecting TimerExpires) = Some (WebSocket ''wss://p1'') \<and>
   ownerListeners goodTransport twoErrorsWhileConnected (StateChange RECONNECTING) connectedSession
     = disconnect observers connectedSession \<and>
   getCurrentEndpoint switchedOnClose = Some ''wss://p2'' \<and>
   map_option url (wsManager switchedOnClose) = Some ''wss://p2'' \<and>
   map url (replaced switchedOnClose) = [''wss://p1''] \<and>
   map state (replaced switchedOnClose) = [DISCONNECTED] \<and>
   map scheduledDelay (replaced switchedOnClose) = [Some 1000] \<and>
   map state (replaced (factoryStep goodTransport switchedOnClose (ReplacedSocket 0 TimerExpires)))
     = [CONNECTING] \<and>
   map ws (replaced (factoryStep goodTransport switchedOnClose (ReplacedSocket 0 TimerExpires)))
     = [Some (WebSocket ''wss://p1'')]"
proof -
  have "switchCount (sessionListener goodTransport (StateChange RECONNECTING) twoErrorsWhileConnected)
          \<noteq> switchCount twoErrorsWhileConnected"
    by (simp add: onSessionStateChange_def twoErrorsWhileConnected_eval Let_def)
  then have owner: "ownerListeners goodTransport twoErrorsWhileConnected (StateChange RECONNECTING) connectedSession
      = disconnect observers connectedSession"
    by (simp add: ownerListeners_def)
  have timer: "state (sessionStep goodTransport disconnectedWhileReconnecting TimerExpires) = CONNECTING"
    "ws (sessionStep goodTransport disconnectedWhileReconnecting TimerExpires) = Some (WebSocket ''wss://p1'')"
    by (simp_all add: disconnectedWhileReconnecting_eval onReconnectTimer_def connect_def setState_def
        goodTransport_def reachable_def Let_def)
  from owner timer show ?thesis
    by (simp add: connectedSession_eval disconnectedWhileReconnecting_eval switchedOnClose_eval
        getCurrentEndpoint_def lookup_def del: factoryStep.simps)
qed

section \<open>The invariant of the pool\<close>

lemma poolInv_updates [simp]:
  "poolInv nc (setState_cm st p) = poolInv nc p"
  "poolInv nc (emit_cm ev p) = poolInv nc p"
  "poolInv nc (p\<lparr>currentRetries := k\<rparr>) = poolInv nc p"
  "poolInv nc (p\<lparr>retryTimers := k\<rparr>) = poolInv nc p"
  "poolInv nc (p\<lparr>lastTimeUsed := t\<rparr>) = poolInv nc p"
  "poolInv nc (p\<lparr>healthCheckIntervalId := b\<rparr>) = poolInv nc p"
  "poolInv nc (p\<lparr>failedEndpoints_cm := F\<rparr>) = poolInv nc p"
  by (simp_all add: poolInv_def constructed_def setState_cm_def emit_cm_def split: option.splits)

lemma poolInv_connected:
  assumes "poolInv nc p"
    and "nc (urlOf (lookup (httpsEndpoints p) (currentEndpointIndex_cm p))) = Inr c"
  shows "poolInv nc (p\<lparr>connection := Some c\<rparr>)"
proof -
  from assms(1) have i: "currentEndpointIndex_cm p < length (httpsEndpoints p)"
    by (simp add: poolInv_def)
  then have "nc (httpsEndpoints p ! currentEndpointIndex_cm p) = Inr c"
    using assms(2) by (simp add: lookup_def urlOf_def)
  moreover have "httpsEndpoints p ! currentEndpointIndex_cm p \<in> set (httpsEndpoints p)"
    using i by simp
  ultimately have "constructed nc p c"
    unfolding constructed_def list_ex_iff by blast
  with assms(1) show ?thesis by (simp add: poolInv_def constructed_def split: option.splits)
qed

lemma poolInv_index:
  assumes "poolInv nc p" and "i < length (httpsEndpoints p)"
  shows "poolInv nc (p\<lparr>currentEndpointIndex_cm := i\<rparr>)"
  using assms by (simp add: poolInv_def constructed_def split: option.splits)

lemma pool_calls_inv:
  "poolInv nc p \<Longrightarrow> poolInv nc (connect_cm nc p)"
  "poolInv nc p \<Longrightarrow> poolInv nc (handleConnectionFailure nc err p)"
  "poolInv nc p \<Longrightarrow> poolInv nc (switchEndpoint_cm nc p)"
proof (induction nc p and nc err p and nc p rule: connect_cm_handleConnectionFailure_switchEndpoint_cm.induct)
  case (1 newConnection p)
  let ?p1 = "setState_cm Connecting p"
  let ?endpoint = "urlOf (lookup (httpsEndpoints ?p1) (currentEndpointIndex_cm ?p1))"
  have p1: "poolInv newConnection ?p1" using "1.prems" by simp
  show ?case
  proof (cases "newConnection ?endpoint")
    case (Inl err)
    from "1.IH" [OF refl refl Inl p1] Inl show ?thesis
      by (subst connect_cm.simps) (simp add: Let_def)
  next
    case (Inr c)
    from poolInv_connected [OF p1 Inr] Inr show ?thesis
      by (subst connect_cm.simps) (simp add: Let_def)
  qed
next
  case (2 newConnection err p)
  let ?p2 = "emit_cm (ConnectionFailure err) (setState_cm Failed p)"
  have p2: "poolInv newConnection ?p2" using "2.prems" by simp
  show ?case
  proof (cases "currentRetries ?p2 < maxRetries_cm ?p2")
    case True
    with p2 show ?thesis
      by (subst handleConnectionFailure.simps) (simp add: Let_def)
  next
    case False
    have "poolInv newConnection (?p2\<lparr>currentRetries := 0\<rparr>)" using p2 by simp
    from "2.IH" [OF refl refl False this] False show ?thesis
      by (subst handleConnectionFailure.simps) (simp add: Let_def)
  qed
next
  case (3 newConnection p)
  let ?p1 = "p\<lparr>failedEndpoints_cm := finsert (currentEndpointIndex_cm p) (failedEndpoints_cm p)\<rparr>"
  let ?p2 = "setState_cm Switching ?p1"
  let ?n = "length (httpsEndpoints ?p2)"
  let ?next = "(currentEndpointIndex_cm ?p2 + 1) mod ?n"
  let ?p3 = "if ?n \<le> fcard (failedEndpoints_cm ?p2) then ?p2\<lparr>failedEndpoints_cm := {||}\<rparr> else ?p2"
  let ?p4 = "?p3\<lparr>currentEndpointIndex_cm := findNotFailed (failedEndpoints_cm ?p3) ?n ?next 0\<rparr>"
  from "3.prems" have n: "0 < ?n" by (simp add: poolInv_def)
  have p3: "poolInv newConnection ?p3" using "3.prems" by simp
  have "findNotFailed (failedEndpoints_cm ?p3) ?n ?next 0 < length (httpsEndpoints ?p3)"
    using n by (simp add: findNotFailed_less)
  with p3 have "poolInv newConnection ?p4" by (rule poolInv_index)
  from "3.IH" [OF refl refl refl refl refl refl this] show ?case
    by (subst switchEndpoint_cm.simps) (simp add: Let_def)
qed

lemma poolStep_inv:
  assumes "poolInv nc p"
  shows "poolInv nc (poolStep nc p x) \<and> httpsEndpoints (poolStep nc p x) = httpsEndpoints p"
  using assms
  by (cases x)
     (simp_all add: getConnection_def onTestResult_def onHealthCheck_def stop_def Let_def
        pool_calls_inv split: option.splits)

lemma poolRun_inv:
  assumes "poolInv nc p"
  shows "poolInv nc (poolRun nc p ins) \<and> httpsEndpoints (poolRun nc p ins) = httpsEndpoints p"
  using assms
proof (induction ins arbitrary: p)
  case Nil
  then show ?case by (simp add: poolRun_def)
next
  case (Cons x xs)
  from poolStep_inv [OF Cons.prems, of x]
  have step: "poolInv nc (poolStep nc p x)" "httpsEndpoints (poolStep nc p x) = httpsEndpoints p"
    by simp_all
  from Cons.IH [OF step(1)] step(2) show ?case by (simp add: poolRun_def)
qed

lemma newConnectionManager_inv:
  assumes "newConnectionManager nc now cfg = Inr p"
  shows "poolInv nc p" and "httpsEndpoints p = cfg_httpsEndpoints cfg" and "cfg_httpsEndpoints cfg \<noteq> []"
proof -
  let ?p = "\<lparr> httpsEndpoints = cfg_httpsEndpoints cfg,
                currentEndpointIndex_cm = 0,
                connection = None,
                state_cm = Connecting,
                retryDelay = orDefault (cfg_retryDelay cfg) 5000,
                maxRetriesConfig = cfg_maxRetries cfg,
                currentRetries = 0,
                healthCheckIntervalId = False,
                healthCheckInterval = orDefault (cfg_healthCheckInterval cfg) 30000,
                lastTimeUsed = now,
                failedEndpoints_cm = {||},
                emitted_cm = [],
                retryTimers = 0 \<rparr>"
  from assms have ne: "cfg_httpsEndpoints cfg \<noteq> []"
    and p: "p = (connect_cm nc ?p)\<lparr>healthCheckIntervalId := True\<rparr>"
    by (auto simp: newConnectionManager_def Let_def split: if_splits)
  from ne have "poolInv nc ?p" by (simp add: poolInv_def)
  then have "poolInv nc (connect_cm nc ?p)" by (rule pool_calls_inv)
  with p show "poolInv nc p" by simp
  from p show "httpsEndpoints p = cfg_httpsEndpoints cfg" by simp
  from ne show "cfg_httpsEndpoints cfg \<noteq> []" .
qed

section \<open>The client of the pool\<close>

lemma pool_calls_keep_client:
  "connection p \<noteq> None \<Longrightarrow> connection (connect_cm nc p) \<noteq> None"
  "connection p \<noteq> None \<Longrightarrow> connection (handleConnectionFailure nc err p) \<noteq> None"
  "connection p \<noteq> None \<Longrightarrow> connection (switchEndpoint_cm nc p) \<noteq> None"
proof (induction nc p and nc err p and nc p rule: connect_cm_handleConnectionFailure_switchEndpoint_cm.induct)
  case (1 newConnection p)
  then show ?case
    by (subst connect_cm.simps) (simp add: Let_def split: sum.splits)
next
  case (2 newConnection err p)
  then show ?case
    by (subst handleConnectionFailure.simps) (simp add: Let_def)
next
  case (3 newConnection p)
  then show ?case
    by (subst switchEndpoint_cm.simps) (simp add: Let_def)
qed

lemma pool_calls_not_connected:
  "state_cm (connect_cm nc p) \<noteq> Connected"
  "state_cm (handleConnectionFailure nc err p) \<noteq> Connected"
  "state_cm (switchEndpoint_cm nc p) \<noteq> Connected"
proof (induction nc p and nc err p and nc p rule: connect_cm_handleConnectionFailure_switchEndpoint_cm.induct)
  case (1 newConnection p)
  then show ?case
    by (subst connect_cm.simps) (simp add: Let_def split: sum.splits)
next
  case (2 newConnection err p)
  then show ?case
    by (subst handleConnectionFailure.simps) (simp add: Let_def)
next
  case (3 newConnection p)
  then show ?case
    by (subst switchEndpoint_cm.simps) (simp add: Let_def)
qed

lemma poolStep_keeps_client:
  assumes "connection p \<noteq> None"
  shows "connection (poolStep nc p x) \<noteq> None"
  using assms
  by (cases x)
     (simp_all add: getConnection_def onTestResult_def onHealthCheck_def stop_def Let_def
        pool_calls_keep_client del: not_None_eq split: option.splits)

lemma afterFailedProbes_eval:
  "state_cm afterFailedProbes = Failed"
  "currentEndpointIndex_cm afterFailedProbes = 1"
  "httpsEndpoints afterFailedProbes = [''https://a'', ''ftp://b'']"
  "connection afterFailedProbes = Some (Connection ''https://a'')"
  "failedEndpoints_cm afterFailedProbes = {|0|}"
  by code_simp+

text \<open>
  C9 as stated fails: the client that \<^verbatim>\<open>getConnection\<close> returns need not be usable. The field
  \<^verbatim>\<open>connection\<close> is assigned before the health test and nothing ever clears it, and
  \<^verbatim>\<open>getConnection\<close> consults neither the state nor the current endpoint. With the endpoints
  \<^verbatim>\<open>https://a\<close> and \<^verbatim>\<open>ftp://b\<close>, after the health test of the first has failed four times the
  pool has marked the first endpoint failed, is bound to the second, for which no client can
  be built, and is in the state \<^verbatim>\<open>Failed\<close>; \<^verbatim>\<open>getConnection\<close> returns the client of the first
  endpoint and signals nothing.
\<close>

theorem failed_client_returned_counterexample:
  "state_cm afterFailedProbes = Failed \<and>
   getCurrentEndpoint_cm afterFailedProbes = Some ''ftp://b'' \<and>
   failedEndpoints_cm afterFailedProbes = {|0|} \<and>
   httpOnly ''ftp://b'' = Inl ''Endpoint URL must start with `http:` or `https:`.'' \<and>
   fst (getConnection httpOnly 5 afterFailedProbes) = Inr (Connection ''https://a'')"
  by (simp add: afterFailedProbes_eval getCurrentEndpoint_cm_def lookup_def getConnection_def httpOnly_def)

text \<open>
  C9, amended. In every state that a connection manager reaches after its constructor,
  \<^verbatim>\<open>getConnection\<close> returns: either the client it holds, which the constructor of the RPC
  library has built for one of the configured endpoints (never a half-built one), or, when it
  holds none, the error \<^verbatim>\<open>Connection not ready yet\<close> after it has called \<^verbatim>\<open>connect\<close>. Whether the
  client is returned does not depend on the connection state; a client that is held is
  never given up, whatever happens next; and the health test that \<^verbatim>\<open>connect\<close> starts only
  moves the state: a healthy answer makes it \<^verbatim>\<open>Connected\<close> and resets the retry counter,
  leaving the client as it is, and a failed one leaves a state other than \<^verbatim>\<open>Connected\<close>.
\<close>

theorem getConnection_held_client_or_not_ready:
  assumes "newConnectionManager nc t0 cfg = Inr p0"
  shows "(case fst (getConnection nc now (poolRun nc p0 ins)) of
            Inr c \<Rightarrow> connection (poolRun nc p0 ins) = Some c \<and> constructed nc (poolRun nc p0 ins) c
          | Inl err \<Rightarrow> err = ''Connection not ready yet'' \<and> connection (poolRun nc p0 ins) = None \<and>
              snd (getConnection nc now (poolRun nc p0 ins))
                = connect_cm nc ((poolRun nc p0 ins)\<lparr>lastTimeUsed := now\<rparr>))
       \<and> fst (getConnection nc now (setState_cm st (poolRun nc p0 ins)))
           = fst (getConnection nc now (poolRun nc p0 ins))
       \<and> (connection (poolRun nc p0 ins) \<noteq> None \<longrightarrow>
            connection (poolStep nc (poolRun nc p0 ins) x) \<noteq> None)
       \<and> connection (onTestResult nc endpoint True (poolRun nc p0 ins)) = connection (poolRun nc p0 ins)
       \<and> state_cm (onTestResult nc endpoint True (poolRun nc p0 ins)) = Connected
       \<and> currentRetries (onTestResult nc endpoint True (poolRun nc p0 ins)) = 0
       \<and> state_cm (onTestResult nc endpoint False (poolRun nc p0 ins)) \<noteq> Connected"
proof (intro conjI impI)
  from newConnectionManager_inv(1) [OF assms] have "poolInv nc (poolRun nc p0 ins)"
    using poolRun_inv by blast
  then show "case fst (getConnection nc now (poolRun nc p0 ins)) of
            Inr c \<Rightarrow> connection (poolRun nc p0 ins) = Some c \<and> constructed nc (poolRun nc p0 ins) c
          | Inl err \<Rightarrow> err = ''Connection not ready yet'' \<and> connection (poolRun nc p0 ins) = None \<and>
              snd (getConnection nc now (poolRun nc p0 ins))
                = connect_cm nc ((poolRun nc p0 ins)\<lparr>lastTimeUsed := now\<rparr>)"
    by (simp add: getConnection_def poolInv_def Let_def split: option.splits)
next
  show "fst (getConnection nc now (setState_cm st (poolRun nc p0 ins)))
           = fst (getConnection nc now (poolRun nc p0 ins))"
    by (simp add: getConnection_def Let_def split: option.splits)
next
  assume "connection (poolRun nc p0 ins) \<noteq> None"
  then show "connection (poolStep nc (poolRun nc p0 ins) x) \<noteq> None"
    by (rule poolStep_keeps_client)
next
  show "connection (onTestResult nc endpoint True (poolRun nc p0 ins)) = connection (poolRun nc p0 ins)"
    and "state_cm (onTestResult nc endpoint True (poolRun nc p0 ins)) = Connected"
    and "currentRetries (onTestResult nc endpoint True (poolRun nc p0 ins)) = 0"
    by (simp_all add: onTestResult_def Let_def emit_cm_def)
next
  show "state_cm (onTestResult nc endpoint False (poolRun nc p0 ins)) \<noteq> Connected"
    by (simp add: onTestResult_def pool_calls_not_connected)
qed

lemma brokenPrimary_eval:
  "fst (getConnection httpOnly 5 brokenPrimary) = Inl ''Connection not ready yet''"
  "fst (getConnection httpOnly 5 (poolRun httpOnly brokenPrimary
         [RetryTimerExpires, RetryTimerExpires, RetryTimerExpires])) = Inr (Connection ''https://b'')"
  "state_cm (poolRun httpOnly brokenPrimary [RetryTimerExpires, RetryTimerExpires, RetryTimerExpires])
     = Connecting"
  by code_simp+

theorem getConnection_held_client_or_not_ready_witness:
  "fst (getConnection httpOnly 5 brokenPrimary) = Inl ''Connection not ready yet'' \<and>
   connection brokenPrimary = None \<and>
   fst (getConnection httpOnly 5 (poolRun httpOnly brokenPrimary
         [RetryTimerExpires, RetryTimerExpires, RetryTimerExpires])) = Inr (Connection ''https://b'') \<and>
   constructed httpOnly (poolRun httpOnly brokenPrimary [RetryTimerExpires, RetryTimerExpires, RetryTimerExpires])
     (Connection ''https://b'') \<and>
   state_cm (poolRun httpOnly brokenPrimary [RetryTimerExpires, RetryTimerExpires, RetryTimerExpires])
     = Connecting \<and>
   state_cm (onTestResult httpOnly ''https://b'' True
       (poolRun httpOnly brokenPrimary [RetryTimerExpires, RetryTimerExpires, RetryTimerExpires])) = Connected \<and>
   connection (onTestResult httpOnly ''https://b'' True
       (poolRun httpOnly brokenPrimary [RetryTimerExpires, RetryTimerExpires, RetryTimerExpires]))
     = Some (Connection ''https://b'')"
  using getConnection_held_client_or_not_ready [OF brokenPrimary_built, where now = 5 and ins = "[]"]
    getConnection_held_client_or_not_ready [OF brokenPrimary_built, where now = 5
      and ins = "[RetryTimerExpires, RetryTimerExpires, RetryTimerExpires]"
      and endpoint = "''https://b''"]
  by (simp add: brokenPrimary_eval poolRun_def [of _ _ "[]"] del: not_None_eq)

section \<open>The current endpoint index\<close>

text \<open>
  C10. Both constructors reject an empty endpoint list with an error. A factory or a
  connection manager that has been built keeps its endpoint list, which is not empty, and
  its current index stays below the length of that list after every sequence of operations
  and events, every switch included; so \<^verbatim>\<open>getCurrentEndpoint\<close> always returns an element of
  the configured list, never \<^verbatim>\<open>undefined\<close>.
\<close>

theorem endpoint_index_in_range:
  "newWebSocketManagerFactory env [] opts = Inl ''No WebSocket endpoints provided''
   \<and> newConnectionManager nc now (cfg\<lparr>cfg_httpsEndpoints := []\<rparr>) = Inl ''No RPC endpoints provided''
   \<and> (newWebSocketManagerFactory env endpoints opts = Inr f \<longrightarrow>
        endpoints \<noteq> []
        \<and> wssEndpoints (factoryRun env f ins) = endpoints
        \<and> currentEndpointIndex (factoryRun env f ins) < length endpoints
        \<and> getCurrentEndpoint (factoryRun env f ins)
            = Some (endpoints ! currentEndpointIndex (factoryRun env f ins))
        \<and> endpoints ! currentEndpointIndex (factoryRun env f ins) \<in> set endpoints)
   \<and> (newConnectionManager nc now cfg = Inr p \<longrightarrow>
        cfg_httpsEndpoints cfg \<noteq> []
        \<and> httpsEndpoints (poolRun nc p pins) = cfg_httpsEndpoints cfg
        \<and> currentEndpointIndex_cm (poolRun nc p pins) < length (cfg_httpsEndpoints cfg)
        \<and> getCurrentEndpoint_cm (poolRun nc p pins)
            = Some (cfg_httpsEndpoints cfg ! currentEndpointIndex_cm (poolRun nc p pins))
        \<and> cfg_httpsEndpoints cfg ! currentEndpointIndex_cm (poolRun nc p pins) \<in> set (cfg_httpsEndpoints cfg))"
proof (intro conjI impI)
  show "newWebSocketManagerFactory env [] opts = Inl ''No WebSocket endpoints provided''"
    by (simp add: newWebSocketManagerFactory_def)
  show "newConnectionManager nc now (cfg\<lparr>cfg_httpsEndpoints := []\<rparr>) = Inl ''No RPC endpoints provided''"
    by (simp add: newConnectionManager_def)
next
  assume built: "newWebSocketManagerFactory env endpoints opts = Inr f"
  note f = newWebSocketManagerFactory_inv(1-3) [OF built]
  from factoryRun_inv [OF f(1), of env ins] f(2)
  have run: "factoryInv (factoryRun env f ins)" "wssEndpoints (factoryRun env f ins) = endpoints"
    by simp_all
  show "endpoints \<noteq> []" by (rule f(3))
  show "wssEndpoints (factoryRun env f ins) = endpoints" by (rule run(2))
  from run show i: "currentEndpointIndex (factoryRun env f ins) < length endpoints"
    by (simp add: factoryInv_def)
  from i run(2) show "getCurrentEndpoint (factoryRun env f ins)
            = Some (endpoints ! currentEndpointIndex (factoryRun env f ins))"
    by (simp add: getCurrentEndpoint_def lookup_def)
  from i show "endpoints ! currentEndpointIndex (factoryRun env f ins) \<in> set endpoints"
    by simp
next
  assume built: "newConnectionManager nc now cfg = Inr p"
  note p = newConnectionManager_inv [OF built]
  from poolRun_inv [OF p(1), of pins] p(2)
  have run: "poolInv nc (poolRun nc p pins)" "httpsEndpoints (poolRun nc p pins) = cfg_httpsEndpoints cfg"
    by simp_all
  show "cfg_httpsEndpoints cfg \<noteq> []" by (rule p(3))
  show "httpsEndpoints (poolRun nc p pins) = cfg_httpsEndpoints cfg" by (rule run(2))
  from run show i: "currentEndpointIndex_cm (poolRun nc p pins) < length (cfg_httpsEndpoints cfg)"
    by (simp add: poolInv_def)
  from i run(2) show "getCurrentEndpoint_cm (poolRun nc p pins)
            = Some (cfg_httpsEndpoints cfg ! currentEndpointIndex_cm (poolRun nc p pins))"
    by (simp add: getCurrentEndpoint_cm_def lookup_def)
  from i show "cfg_httpsEndpoints cfg ! currentEndpointIndex_cm (poolRun nc p pins) \<in> set (cfg_httpsEndpoints cfg)"
    by simp
qed


lemma brokenPrimary_switched:
  "currentEndpointIndex_cm (poolRun httpOnly brokenPrimary
      [RetryTimerExpires, RetryTimerExpires, RetryTimerExpires]) = 1"
  by code_simp

theorem endpoint_index_in_range_witness:
  "newWebSocketManagerFactory goodTransport [] sessionOptions = Inl ''No WebSocket endpoints provided'' \<and>
   newConnectionManager httpOnly 0 (poolConfig []) = Inl ''No RPC endpoints provided'' \<and>
   getCurrentEndpoint (factoryRun goodTransport twoEndpoints refusedTwice) = Some ''wss://p2'' \<and>
   getCurrentEndpoint_cm (poolRun httpOnly brokenPrimary
      [RetryTimerExpires, RetryTimerExpires, RetryTimerExpires]) = Some ''https://b''"
  using endpoint_index_in_range [where env = goodTransport and opts = sessionOptions
      and endpoints = "[''wss://p1'', ''wss://p2'']" and f = twoEndpoints and ins = refusedTwice
      and nc = httpOnly and now = 0 and cfg = "poolConfig [''ftp://a'', ''https://b'']"
      and p = brokenPrimary and pins = "[RetryTimerExpires, RetryTimerExpires, RetryTimerExpires]"]
    twoEndpoints_built brokenPrimary_built primaryRefusedTwice_eval(2) brokenPrimary_switched
  by (simp add: poolConfig_def primaryRefusedTwice_def)

end
